theory Spec2Isabelle
  imports Complex_Main "HOL-Library.AList"
begin

section \<open>Time, regions and exceptions\<close>

text \<open>
  An instant is a point on the UTC time line, counted in microseconds from
  1970-01-01T00:00:00Z (the resolution of Python's \<open>datetime\<close>).  The range limits of
  \<open>datetime\<close> (years 1 to 9999) are not modelled.  A \<open>timedelta\<close> is a number of
  microseconds.
\<close>

type_synonym instant = int

definition timedelta_minutes :: "int \<Rightarrow> int" where
  "timedelta_minutes n = n * 60000000"

definition timedelta_hours :: "int \<Rightarrow> int" where
  "timedelta_hours n = n * 3600000000"

definition timedelta_days :: "int \<Rightarrow> int" where
  "timedelta_days n = n * 86400000000"

definition timedelta_weeks :: "int \<Rightarrow> int" where
  "timedelta_weeks n = n * 604800000000"

datatype RegionEnum = US | UK

datatype exn = AttributeError | ValueError | NotFittedError | IndexError | TypeError

text \<open>
  The time zone data (\<open>pytz.timezone(settings.TIMEZONE_US)\<close>, \<open>America/New_York\<close>, and
  \<open>pytz.timezone(settings.TIMEZONE_UK)\<close>, \<open>Europe/London\<close>) is not part of the
  repository: it is a parameter, the UTC offset in microseconds that the region's zone
  has at a UTC instant.
\<close>

type_synonym tzdb = "RegionEnum \<Rightarrow> instant \<Rightarrow> int"

text \<open>
  An aware local \<open>datetime\<close>: the reading of the local wall clock (microseconds from
  1970-01-01T00:00 on that clock) and the fixed UTC offset of its \<open>tzinfo\<close>.
\<close>

record aware_datetime =
  wall_clock :: int
  utcoffset :: int

definition astimezone :: "tzdb \<Rightarrow> RegionEnum \<Rightarrow> instant \<Rightarrow> aware_datetime" where
  "astimezone tz region t = \<lparr>wall_clock = t + tz region t, utcoffset = tz region t\<rparr>"

definition to_utc :: "aware_datetime \<Rightarrow> instant" where
  "to_utc d = wall_clock d - utcoffset d"

text \<open>\<open>weekday()\<close>: Monday is 0; 1970-01-01 was a Thursday.\<close>

definition dt_weekday :: "aware_datetime \<Rightarrow> int" where
  "dt_weekday d = (wall_clock d div 86400000000 + 3) mod 7"

definition dt_hour :: "aware_datetime \<Rightarrow> int" where
  "dt_hour d = (wall_clock d mod 86400000000) div 3600000000"

text \<open>
  \<open>d.replace(hour=h, minute=m, second=0, microsecond=0)\<close>: same calendar day and same
  \<open>tzinfo\<close>; \<open>ValueError\<close> when the hour or the minute is out of range.
\<close>

definition dt_replace :: "aware_datetime \<Rightarrow> int \<Rightarrow> int \<Rightarrow> exn + aware_datetime" where
  "dt_replace d h m =
     (if 0 \<le> h \<and> h \<le> 23 \<and> 0 \<le> m \<and> m \<le> 59
      then Inr (d\<lparr>wall_clock := (wall_clock d div 86400000000) * 86400000000
                                   + timedelta_hours h + timedelta_minutes m\<rparr>)
      else Inl ValueError)"

text \<open>
  The random source is a stream of draws and a position in it; the \<open>k\<close>-th call of
  \<open>random.randint(0, 59)\<close> returns a value between 0 and 59.
\<close>

type_synonym rand = "nat \<Rightarrow> nat"

definition randint_0_59 :: "rand \<Rightarrow> nat \<Rightarrow> int" where
  "randint_0_59 rng k = int (rng k mod 60)"

section \<open>The scheduler (scheduler.py, \<open>ContentScheduler\<close>)\<close>

record ContentScheduler =
  min_interval_hours :: int
  max_daily_posts :: nat
  max_weekly_posts :: nat

definition init_scheduler :: ContentScheduler where
  "init_scheduler = \<lparr>min_interval_hours = 2, max_daily_posts = 6, max_weekly_posts = 30\<rparr>"

text \<open>\<open>self.optimal_posting_times[region][time_key]\<close>; the flag is \<open>is_weekend\<close>.\<close>

fun optimal_posting_times :: "RegionEnum \<Rightarrow> bool \<Rightarrow> int list" where
  "optimal_posting_times US False = [9, 12, 15, 18, 21]"
| "optimal_posting_times US True = [10, 13, 16, 19, 20]"
| "optimal_posting_times UK False = [8, 12, 17, 19, 21]"
| "optimal_posting_times UK True = [9, 12, 15, 18, 20]"

subsection \<open>\<open>get_optimal_posting_times\<close>\<close>

text \<open>
  Line 54 binds the local name \<open>timezone\<close> to the region's pytz zone, so within this
  function \<open>timezone\<close> is no longer \<open>datetime.timezone\<close>.  Line 75 evaluates
  \<open>timezone.utc\<close> on that pytz object, which has no attribute \<open>utc\<close>: the lookup raises
  \<open>AttributeError\<close>.
\<close>

definition pytz_zone_attr_utc :: "RegionEnum \<Rightarrow> exn + unit" where
  "pytz_zone_attr_utc region = Inl AttributeError"

text \<open>
  The loop of lines 66 to 76.  In each round the minute is drawn, \<open>replace\<close> builds the
  local time, the argument \<open>timezone.utc\<close> is evaluated, and only then is the time
  converted and appended.
\<close>

fun optimal_times_loop ::
  "RegionEnum \<Rightarrow> aware_datetime \<Rightarrow> rand \<Rightarrow> nat \<Rightarrow> int list \<Rightarrow> exn + (instant list \<times> nat)" where
  "optimal_times_loop region local_date rng k [] = Inr ([], k)"
| "optimal_times_loop region local_date rng k (hour # hours) =
     (case dt_replace local_date hour (randint_0_59 rng k) of
        Inl e \<Rightarrow> Inl e
      | Inr optimal_time \<Rightarrow>
          (case pytz_zone_attr_utc region of
             Inl e \<Rightarrow> Inl e
           | Inr utc \<Rightarrow>
               (case optimal_times_loop region local_date rng (Suc k) hours of
                  Inl e \<Rightarrow> Inl e
                | Inr (optimal_times, k') \<Rightarrow> Inr (to_utc optimal_time # optimal_times, k'))))"

text \<open>\<open>page_preferences or default\<close>: \<open>None\<close> and the empty list both select the default.\<close>

definition get_optimal_posting_times ::
  "tzdb \<Rightarrow> rand \<Rightarrow> nat \<Rightarrow> RegionEnum \<Rightarrow> instant \<Rightarrow> int list option
     \<Rightarrow> exn + (instant list \<times> nat)" where
  "get_optimal_posting_times tz rng k region target_date page_preferences =
     (let local_date = astimezone tz region target_date;
          is_weekend = (dt_weekday local_date \<ge> 5);
          optimal_hours =
            (case page_preferences of
               None \<Rightarrow> optimal_posting_times region is_weekend
             | Some hs \<Rightarrow> if hs = [] then optimal_posting_times region is_weekend else hs)
      in case optimal_times_loop region local_date rng k optimal_hours of
           Inl e \<Rightarrow> Inl e
         | Inr (optimal_times, k') \<Rightarrow> Inr (sort optimal_times, k'))"

subsection \<open>\<open>calculate_next_posting_slot\<close>, \<open>_is_slot_available\<close>, \<open>_adjust_to_optimal_time\<close>\<close>

fun is_slot_available :: "instant \<Rightarrow> instant list \<Rightarrow> int \<Rightarrow> bool" where
  "is_slot_available proposed_time [] min_gap_hours = True"
| "is_slot_available proposed_time (existing_time # existing_posts) min_gap_hours =
     (if \<bar>proposed_time - existing_time\<bar> < timedelta_hours min_gap_hours then False
      else is_slot_available proposed_time existing_posts min_gap_hours)"

text \<open>
  The two callers below reach \<open>self.get_optimal_posting_times(region, target_date,
  page_preferences)\<close> with the region and the preferences fixed: the method is a function
  of the target date and of the position in the random stream.
\<close>

type_synonym times_method = "instant \<Rightarrow> nat \<Rightarrow> exn + (instant list \<times> nat)"

text \<open>The inner loop of lines 103 to 110 over one day's candidates.\<close>

fun first_free_slot :: "instant \<Rightarrow> instant list \<Rightarrow> instant list \<Rightarrow> instant option" where
  "first_free_slot now_utc existing_posts [] = None"
| "first_free_slot now_utc existing_posts (optimal_time # optimal_times) =
     (if optimal_time \<le> now_utc then first_free_slot now_utc existing_posts optimal_times
      else if is_slot_available optimal_time existing_posts 2 then Some optimal_time
      else first_free_slot now_utc existing_posts optimal_times)"

text \<open>The outer loop of lines 93 to 110 over \<open>days_ahead\<close>.\<close>

fun search_days ::
  "times_method \<Rightarrow> instant \<Rightarrow> instant list \<Rightarrow> nat \<Rightarrow> int list \<Rightarrow> exn + (instant option \<times> nat)" where
  "search_days get_times now_utc existing_posts k [] = Inr (None, k)"
| "search_days get_times now_utc existing_posts k (days_ahead # rest) =
     (case get_times (now_utc + timedelta_days days_ahead) k of
        Inl e \<Rightarrow> Inl e
      | Inr (optimal_times, k') \<Rightarrow>
          (case first_free_slot now_utc existing_posts optimal_times of
             Some slot \<Rightarrow> Inr (Some slot, k')
           | None \<Rightarrow> search_days get_times now_utc existing_posts k' rest))"

text \<open>\<open>min(xs, key=f)\<close>: the first element with the least key.\<close>

fun min_by :: "('a \<Rightarrow> int) \<Rightarrow> 'a \<Rightarrow> 'a list \<Rightarrow> 'a" where
  "min_by f best [] = best"
| "min_by f best (x # xs) = min_by f (if f x < f best then x else best) xs"

definition adjust_to_optimal_time :: "times_method \<Rightarrow> instant \<Rightarrow> nat \<Rightarrow> exn + instant" where
  "adjust_to_optimal_time get_times base_time k =
     (case get_times base_time k of
        Inl e \<Rightarrow> Inl e
      | Inr (optimal_times, k') \<Rightarrow>
          (case optimal_times of
             [] \<Rightarrow> Inr base_time
           | t # ts \<Rightarrow> Inr (min_by (\<lambda>t. \<bar>t - base_time\<bar>) t ts)))"

text \<open>The body of \<open>calculate_next_posting_slot\<close> over the method it calls.\<close>

definition next_posting_slot_over ::
  "times_method \<Rightarrow> nat \<Rightarrow> instant \<Rightarrow> instant list \<Rightarrow> int \<Rightarrow> exn + instant" where
  "next_posting_slot_over get_times k now_utc existing_posts preferred_frequency_hours =
     (case search_days get_times now_utc existing_posts k [0, 1, 2, 3, 4, 5, 6] of
        Inl e \<Rightarrow> Inl e
      | Inr (Some slot, k') \<Rightarrow> Inr slot
      | Inr (None, k') \<Rightarrow>
          (let next_slot =
                 (case existing_posts of
                    [] \<Rightarrow> now_utc + timedelta_hours 1
                  | p # ps \<Rightarrow> fold max ps p + timedelta_hours preferred_frequency_hours)
           in adjust_to_optimal_time get_times next_slot k'))"

definition calculate_next_posting_slot ::
  "tzdb \<Rightarrow> rand \<Rightarrow> nat \<Rightarrow> RegionEnum \<Rightarrow> instant \<Rightarrow> instant list \<Rightarrow> int \<Rightarrow> int list option
     \<Rightarrow> exn + instant" where
  "calculate_next_posting_slot tz rng k region now_utc existing_posts
       preferred_frequency_hours page_preferences =
     next_posting_slot_over
       (\<lambda>target_date k. get_optimal_posting_times tz rng k region target_date page_preferences)
       k now_utc existing_posts preferred_frequency_hours"

subsection \<open>\<open>validate_posting_schedule\<close>\<close>

text \<open>
  An element of the proposed schedule is a \<open>datetime\<close> as Python holds it: naive, a
  reading of a wall clock with no \<open>tzinfo\<close>, or aware, the reading together with the UTC
  offset of the \<open>tzinfo\<close> it carries.  Readings and offsets are in microseconds.
\<close>

datatype datetime = Naive int | Aware int int

fun is_naive :: "datetime \<Rightarrow> bool" where
  "is_naive (Naive w) = True"
| "is_naive (Aware w off) = False"

text \<open>
  \<open>d.date()\<close>: the calendar day of the reading, that is, the day in the \<open>tzinfo\<close> that the
  datetime carries; no conversion takes place.
\<close>

fun carried_date :: "datetime \<Rightarrow> int" where
  "carried_date (Naive w) = w div 86400000000"
| "carried_date (Aware w off) = w div 86400000000"

text \<open>
  The point on the UTC time line of an aware datetime; aware datetimes are compared,
  sorted and subtracted by it.  Comparing a naive datetime with the aware \<open>now_utc\<close>
  raises \<open>TypeError\<close>, which line 245 does for every naive element before any other step
  runs: the clause for \<open>Naive\<close> is there for totality and no run evaluates it.
\<close>

fun utc_instant :: "datetime \<Rightarrow> instant" where
  "utc_instant (Aware w off) = w - off"
| "utc_instant (Naive w) = w"

text \<open>
  The messages are f-strings around the values kept here: the number of past times; the
  number of days over the limit and the limit; the two neighbours that are too close; the
  weekly limit; the number of posts outside the optimal hours.  Only the region of the
  page is read.
\<close>

datatype message =
    PastTimes nat
  | DailyLimitExceeded nat nat
  | TooClose datetime datetime
  | WeeklyLimit nat
  | OutsideOptimal nat

record validation_results =
  is_valid :: bool
  warnings :: "message list"
  errors :: "message list"
  suggested_adjustments :: "message list"

record FacebookPage =
  page_region :: RegionEnum

text \<open>
  The objects the call can reach: the scheduler \<open>self\<close> and the caller's list, both
  received by reference, and the objects the function creates.  Each block of the
  function is a step on this frame.  \<open>raised\<close> holds the exception that left the
  function, if one did.
\<close>

record frame =
  scheduler :: ContentScheduler
  proposed_schedule :: "datetime list"
  results :: validation_results
  past_times :: "datetime list"
  daily_counts :: "(int \<times> nat) list"
  over_limit_days :: "int list"
  sorted_times :: "datetime list"
  suboptimal_times :: "datetime list"
  raised :: "exn option"

definition enter_validate :: "ContentScheduler \<Rightarrow> datetime list \<Rightarrow> frame" where
  "enter_validate self schedule =
     \<lparr>scheduler = self, proposed_schedule = schedule,
      results = \<lparr>is_valid = True, warnings = [], errors = [], suggested_adjustments = []\<rparr>,
      past_times = [], daily_counts = [], over_limit_days = [], sorted_times = [],
      suboptimal_times = [], raised = None\<rparr>"

text \<open>
  The comprehension of line 245, \<open>[t for t in proposed_schedule if t <= now_utc]\<close>: it
  compares every element with \<open>now_utc\<close> and builds a new list.
\<close>

fun past_times_of :: "instant \<Rightarrow> datetime list \<Rightarrow> exn + datetime list" where
  "past_times_of now_utc [] = Inr []"
| "past_times_of now_utc (Naive w # rest) = Inl TypeError"
| "past_times_of now_utc (Aware w off # rest) =
     (case past_times_of now_utc rest of
        Inl e \<Rightarrow> Inl e
      | Inr past \<Rightarrow> Inr (if w - off \<le> now_utc then Aware w off # past else past))"

text \<open>Lines 245 to 250.\<close>

definition check_past_times :: "instant \<Rightarrow> frame \<Rightarrow> frame" where
  "check_past_times now_utc f =
     (case past_times_of now_utc (proposed_schedule f) of
        Inl e \<Rightarrow> f\<lparr>raised := Some e\<rparr>
      | Inr past \<Rightarrow>
          (let f = f\<lparr>past_times := past\<rparr>
           in if past_times f \<noteq> []
              then f\<lparr>results := (results f)
                       \<lparr>errors := errors (results f) @ [PastTimes (length (past_times f))],
                        is_valid := False\<rparr>\<rparr>
              else f))"

text \<open>
  Lines 253 to 256: \<open>daily_counts[date_key] = daily_counts.get(date_key, 0) + 1\<close> with
  \<open>date_key = scheduled_time.date()\<close>.  A dict keeps its keys in the order of their first
  insertion.
\<close>

fun count_days :: "datetime list \<Rightarrow> (int \<times> nat) list \<Rightarrow> (int \<times> nat) list" where
  "count_days [] counts = counts"
| "count_days (scheduled_time # rest) counts =
     (let date_key = carried_date scheduled_time
      in count_days rest
           (AList.update date_key
              ((case map_of counts date_key of None \<Rightarrow> 0 | Some c \<Rightarrow> c) + 1) counts))"

text \<open>Lines 253 to 264.\<close>

definition check_daily_limits :: "frame \<Rightarrow> frame" where
  "check_daily_limits f =
     (let f = f\<lparr>daily_counts := count_days (proposed_schedule f) []\<rparr>;
          max_daily = max_daily_posts (scheduler f);
          f = f\<lparr>over_limit_days :=
                   map fst (filter (\<lambda>(date, count). count > max_daily) (daily_counts f))\<rparr>
      in if over_limit_days f \<noteq> []
         then f\<lparr>results := (results f)
                  \<lparr>warnings := warnings (results f)
                     @ [DailyLimitExceeded (length (over_limit_days f)) max_daily]\<rparr>\<rparr>
         else f)"

text \<open>The loop of lines 270 to 274 over the neighbours of the sorted copy.\<close>

fun too_close :: "int \<Rightarrow> datetime list \<Rightarrow> message list" where
  "too_close min_interval (a # b # ts) =
     (if utc_instant b - utc_instant a < min_interval then [TooClose a b] else [])
     @ too_close min_interval (b # ts)"
| "too_close min_interval ts = []"

text \<open>Lines 267 to 274; \<open>sorted\<close> builds a new list and is stable.\<close>

definition check_min_intervals :: "frame \<Rightarrow> frame" where
  "check_min_intervals f =
     (let min_interval = timedelta_hours (min_interval_hours (scheduler f));
          f = f\<lparr>sorted_times := sort_key utc_instant (proposed_schedule f)\<rparr>
      in f\<lparr>results := (results f)
               \<lparr>warnings := warnings (results f) @ too_close min_interval (sorted_times f)\<rparr>\<rparr>)"

text \<open>Lines 277 to 281.\<close>

definition check_weekly_limits :: "instant \<Rightarrow> frame \<Rightarrow> frame" where
  "check_weekly_limits now_utc f =
     (let weekly_count =
            length (filter (\<lambda>t. utc_instant t \<le> now_utc + timedelta_weeks 1)
                      (proposed_schedule f))
      in if weekly_count > max_weekly_posts (scheduler f)
         then f\<lparr>results := (results f)
                  \<lparr>warnings := warnings (results f)
                     @ [WeeklyLimit (max_weekly_posts (scheduler f))]\<rparr>\<rparr>
         else f)"

text \<open>The test of lines 288 to 296 on one scheduled time.\<close>

definition is_suboptimal :: "tzdb \<Rightarrow> RegionEnum \<Rightarrow> datetime \<Rightarrow> bool" where
  "is_suboptimal tz r scheduled_time =
     (let local_time = astimezone tz r (utc_instant scheduled_time);
          hour = dt_hour local_time;
          is_weekday = (dt_weekday local_time < 5);
          optimal_hours = optimal_posting_times r (\<not> is_weekday)
      in hour \<notin> set optimal_hours)"

text \<open>Lines 284 to 302.\<close>

definition check_optimal_times :: "tzdb \<Rightarrow> FacebookPage \<Rightarrow> frame \<Rightarrow> frame" where
  "check_optimal_times tz facebook_page f =
     (let f = f\<lparr>suboptimal_times :=
                   filter (is_suboptimal tz (page_region facebook_page)) (proposed_schedule f)\<rparr>
      in if suboptimal_times f \<noteq> []
         then f\<lparr>results := (results f)
                  \<lparr>suggested_adjustments := suggested_adjustments (results f)
                     @ [OutsideOptimal (length (suboptimal_times f))]\<rparr>\<rparr>
         else f)"

text \<open>
  The frame when the function is left, by \<open>return\<close> or by the exception of the first
  block, and what the caller gets: the report or the exception.
\<close>

definition validate_run ::
  "tzdb \<Rightarrow> instant \<Rightarrow> ContentScheduler \<Rightarrow> FacebookPage \<Rightarrow> datetime list \<Rightarrow> frame" where
  "validate_run tz now_utc self facebook_page schedule =
     (let f = check_past_times now_utc (enter_validate self schedule)
      in if raised f \<noteq> None then f
         else check_optimal_times tz facebook_page
                (check_weekly_limits now_utc
                   (check_min_intervals
                      (check_daily_limits f))))"

definition validate_posting_schedule ::
  "tzdb \<Rightarrow> instant \<Rightarrow> ContentScheduler \<Rightarrow> FacebookPage \<Rightarrow> datetime list
     \<Rightarrow> exn + validation_results" where
  "validate_posting_schedule tz now_utc self facebook_page schedule =
     (let f = validate_run tz now_utc self facebook_page schedule
      in case raised f of
           Some e \<Rightarrow> Inl e
         | None \<Rightarrow> Inr (results f))"

text \<open>
  The local calendar day of the specification: the day on the wall clock of the region
  at the instant of the datetime.  The two functions after it count the elements of a
  schedule on one local day of the region, and on one day as \<open>date()\<close> gives it.
\<close>

definition region_local_date :: "tzdb \<Rightarrow> RegionEnum \<Rightarrow> datetime \<Rightarrow> int" where
  "region_local_date tz r t = wall_clock (astimezone tz r (utc_instant t)) div 86400000000"

definition posts_on_local_day :: "tzdb \<Rightarrow> RegionEnum \<Rightarrow> datetime list \<Rightarrow> int \<Rightarrow> nat" where
  "posts_on_local_day tz r schedule d =
     length (filter (\<lambda>t. region_local_date tz r t = d) schedule)"

definition posts_on_carried_day :: "datetime list \<Rightarrow> int \<Rightarrow> nat" where
  "posts_on_carried_day schedule d = length (filter (\<lambda>t. carried_date t = d) schedule)"

text \<open>The daily-limit warnings of what a call gave; none when it raised.\<close>

fun is_daily_warning :: "message \<Rightarrow> bool" where
  "is_daily_warning (DailyLimitExceeded n m) = True"
| "is_daily_warning w = False"

fun daily_warnings :: "exn + validation_results \<Rightarrow> message list" where
  "daily_warnings (Inr r) = filter is_daily_warning (warnings r)"
| "daily_warnings (Inl e) = []"

text \<open>
  Offsets for concrete runs in January: New York is at UTC-5 and London at UTC+0
  throughout the month.
\<close>

fun winter_offsets :: tzdb where
  "winter_offsets US t = - 18000000000"
| "winter_offsets UK t = 0"

subsection \<open>\<open>calculate_posting_frequency\<close>\<close>

text \<open>
  Python floats are idealised as reals: the comparisons against the thresholds and the
  mean of the history are exact.  The engagement history is a dict of floats; only its
  values are read, so it is an association list.  \<open>None\<close> is the default argument.
  An empty dict is falsy in Python, so \<open>if engagement_history:\<close> skips the step for
  \<open>None\<close> and for \<open>{}\<close> alike.
\<close>

definition calculate_posting_frequency ::
  "int \<Rightarrow> real \<Rightarrow> (string \<times> real) list option \<Rightarrow> int" where
  "calculate_posting_frequency page_followers content_quality_score engagement_history =
     (let base_frequency = 6;
          base_frequency =
            (if page_followers > 100000 then 4
             else if page_followers > 50000 then 5
             else if page_followers < 1000 then 8
             else base_frequency);
          base_frequency =
            (if content_quality_score > 0.8 then max 2 (base_frequency - 1)
             else if content_quality_score < 0.5 then min 12 (base_frequency + 2)
             else base_frequency);
          base_frequency =
            (case engagement_history of
               None \<Rightarrow> base_frequency
             | Some h \<Rightarrow>
                 if h = [] then base_frequency
                 else
                   (let avg_engagement = sum_list (map snd h) / real (length h)
                    in if avg_engagement > 5.0 then max 3 (base_frequency - 1)
                       else if avg_engagement < 1.0 then min 12 (base_frequency + 2)
                       else base_frequency))
      in base_frequency)"

text \<open>\<^bold>\<open>The rule as the specification words it.\<close>\<close>

text \<open>
  Three adjustments, each a function of the running value, composed in the stated order.
  The mean of a history exists only when the history has a value in it; without a mean
  neither threshold of the third adjustment is met.
\<close>

definition spec_follower_tier :: "int \<Rightarrow> int" where
  "spec_follower_tier followers =
     (if followers > 100000 then 4 else if followers > 50000 then 5
      else if followers < 1000 then 8 else 6)"

definition spec_quality_step :: "real \<Rightarrow> int \<Rightarrow> int" where
  "spec_quality_step quality f =
     (if quality > 0.8 then max 2 (f - 1)
      else if quality < 0.5 then min 12 (f + 2) else f)"

definition spec_mean :: "real list \<Rightarrow> real option" where
  "spec_mean xs = (if xs = [] then None else Some (sum_list xs / real (length xs)))"

definition spec_history_step :: "(string \<times> real) list option \<Rightarrow> int \<Rightarrow> int" where
  "spec_history_step history f =
     (case history of
        None \<Rightarrow> f
      | Some h \<Rightarrow>
          (case spec_mean (map snd h) of
             None \<Rightarrow> f
           | Some m \<Rightarrow> if m > 5.0 then max 3 (f - 1)
                      else if m < 1.0 then min 12 (f + 2) else f))"

definition recommendedFrequencyHours ::
  "int \<Rightarrow> real \<Rightarrow> (string \<times> real) list option \<Rightarrow> int" where
  "recommendedFrequencyHours followers quality history =
     spec_history_step history (spec_quality_step quality (spec_follower_tier followers))"

section \<open>The optimization engine (optimization.py, \<open>ContentOptimizationEngine\<close>)\<close>

text \<open>
  Floats are idealised as reals (no rounding, no overflow), except where a division can
  meet a zero divisor of numpy's float type, whose result is kept apart below.
\<close>

record ContentFeatures =
  posting_hour :: int
  posting_weekday :: int
  caption_length :: int
  hashtag_count :: int
  has_image :: bool
  sentiment_score :: real
  readability_score :: real
  content_type :: string
  regional_relevance_score :: real

record PerformanceMetrics =
  engagement_rate :: real
  reach_rate :: real
  click_through_rate :: real
  total_reactions :: int
  comments :: int
  shares :: int
  performance_score :: real

type_synonym matrix = "real list list"

text \<open>\<open>np.mean\<close> of a list that is not empty.\<close>

definition np_mean :: "real list \<Rightarrow> real" where
  "np_mean xs = sum_list xs / real (length xs)"

subsection \<open>\<open>_features_to_array\<close>\<close>

definition feature_vector :: "ContentFeatures \<Rightarrow> real list" where
  "feature_vector feat =
     [real_of_int (posting_hour feat) / 24,
      real_of_int (posting_weekday feat) / 6,
      min (real_of_int (caption_length feat) / 300) 1,
      min (real_of_int (hashtag_count feat) / 10) 1,
      (if has_image feat then 1 else 0),
      (sentiment_score feat + 1) / 2,
      readability_score feat / 100,
      regional_relevance_score feat]"

definition features_to_array :: "ContentFeatures list \<Rightarrow> matrix" where
  "features_to_array features = map feature_vector features"

subsection \<open>The library objects the engine holds\<close>

text \<open>
  \<open>sklearn.preprocessing.StandardScaler\<close>: \<open>fit\<close> stores the mean of each of the eight
  columns and its scale, the square root of the population variance, or 1 for a constant
  column; \<open>transform\<close> subtracts the mean and divides by the scale, and raises
  \<open>NotFittedError\<close> on a scaler that was never fitted (\<open>None\<close> below).
\<close>

record scaler_params =
  scaler_mean :: "real list"
  scaler_scale :: "real list"

definition column :: "matrix \<Rightarrow> nat \<Rightarrow> real list" where
  "column X j = map (\<lambda>row. row ! j) X"

definition variance :: "real list \<Rightarrow> real" where
  "variance xs = np_mean (map (\<lambda>x. (x - np_mean xs)\<^sup>2) xs)"

definition scaler_fit :: "matrix \<Rightarrow> scaler_params" where
  "scaler_fit X =
     \<lparr>scaler_mean = map (\<lambda>j. np_mean (column X j)) [0..<8],
      scaler_scale =
        map (\<lambda>j. if variance (column X j) = 0 then 1 else sqrt (variance (column X j)))
          [0..<8]\<rparr>"

definition scaler_transform :: "scaler_params \<Rightarrow> matrix \<Rightarrow> matrix" where
  "scaler_transform sc X =
     map (\<lambda>row. map (\<lambda>(x, m, s). (x - m) / s)
                  (zip row (zip (scaler_mean sc) (scaler_scale sc)))) X"

text \<open>
  \<open>sklearn.linear_model.LinearRegression\<close>: a model is fitted when it has its
  coefficients (\<open>coef_\<close>) and intercept.  \<open>fit\<close> raises \<open>ValueError\<close> when the numbers of
  rows and of targets differ or there is no row; otherwise it stores the least-squares
  solution, which is computed by the library and is a parameter here.  \<open>predict\<close> raises
  \<open>ValueError\<close> on no row or on a row of another width.
  \<open>sklearn.metrics.mean_squared_error\<close> raises \<open>ValueError\<close> on lists of different
  lengths or on empty ones.
\<close>

record linear_model =
  coef :: "real list"
  intercept :: real

type_synonym solver = "matrix \<Rightarrow> real list \<Rightarrow> real list \<times> real"

definition lr_fit :: "solver \<Rightarrow> matrix \<Rightarrow> real list \<Rightarrow> exn + linear_model" where
  "lr_fit lstsq X y =
     (if X = [] \<or> length X \<noteq> length y then Inl ValueError
      else Inr \<lparr>coef = fst (lstsq X y), intercept = snd (lstsq X y)\<rparr>)"

definition lr_predict :: "linear_model \<Rightarrow> matrix \<Rightarrow> exn + real list" where
  "lr_predict m X =
     (if X = [] \<or> list_ex (\<lambda>row. length row \<noteq> length (coef m)) X then Inl ValueError
      else Inr (map (\<lambda>row. sum_list (map2 (*) row (coef m)) + intercept m) X))"

definition mean_squared_error :: "real list \<Rightarrow> real list \<Rightarrow> exn + real" where
  "mean_squared_error y_true y_pred =
     (if y_true = [] \<or> length y_true \<noteq> length y_pred then Inl ValueError
      else Inr (np_mean (map2 (\<lambda>a b. (a - b)\<^sup>2) y_true y_pred)))"

record model_tracking =
  accuracy :: real
  last_trained :: "instant option"

record ContentOptimizationEngine =
  engagement_model :: "linear_model option"
  reach_model :: "linear_model option"
  click_model :: "linear_model option"
  scaler :: "scaler_params option"
  engagement_tracking :: model_tracking
  reach_tracking :: model_tracking
  click_tracking :: model_tracking

text \<open>\<open>__init__\<close>: nothing is fitted.\<close>

definition init_engine :: ContentOptimizationEngine where
  "init_engine =
     \<lparr>engagement_model = None, reach_model = None, click_model = None, scaler = None,
      engagement_tracking = \<lparr>accuracy = 0, last_trained = None\<rparr>,
      reach_tracking = \<lparr>accuracy = 0, last_trained = None\<rparr>,
      click_tracking = \<lparr>accuracy = 0, last_trained = None\<rparr>\<rparr>"

subsection \<open>\<open>train_predictive_models\<close>\<close>

datatype train_value = Number real | Message string | Raised exn

text \<open>
  One of the three blocks of the \<open>try\<close> (lines 545 to 548 for the engagement model):
  \<open>fit\<close> replaces the parameters of the model object at once; \<open>predict\<close> and
  \<open>mean_squared_error\<close> follow.  The result is the model object after the block and the
  mean squared error or the exception.
\<close>

definition fit_and_score ::
  "solver \<Rightarrow> matrix \<Rightarrow> real list \<Rightarrow> matrix \<Rightarrow> real list \<Rightarrow> linear_model option
     \<Rightarrow> linear_model option \<times> (exn + real)" where
  "fit_and_score lstsq X_train y_train X_val y_val model =
     (case lr_fit lstsq X_train y_train of
        Inl e \<Rightarrow> (model, Inl e)
      | Inr m \<Rightarrow>
          (case lr_predict m X_val of
             Inl e \<Rightarrow> (Some m, Inl e)
           | Inr pred \<Rightarrow>
               (case mean_squared_error y_val pred of
                  Inl e \<Rightarrow> (Some m, Inl e)
                | Inr mse \<Rightarrow> (Some m, Inr mse))))"

text \<open>
  The function returns the dict \<open>models_performance\<close> and leaves the engine in the second
  component.  \<open>int(len(X_scaled) * 0.8)\<close> is \<open>4 * len div 5\<close>.  The \<open>except\<close> clause
  catches every exception of the \<open>try\<close> block and stores its text under \<open>"error"\<close>.
\<close>

definition train_predictive_models ::
  "solver \<Rightarrow> instant \<Rightarrow> ContentOptimizationEngine \<Rightarrow> ContentFeatures list
     \<Rightarrow> PerformanceMetrics list
     \<Rightarrow> (string \<times> train_value) list \<times> ContentOptimizationEngine" where
  "train_predictive_models lstsq now self features_data performance_data =
     (if length features_data < 20
      then ([(''error'', Message ''Need at least 20 data points for training'')], self)
      else
        (let X = features_to_array features_data;
             y_engagement = map engagement_rate performance_data;
             y_reach = map reach_rate performance_data;
             y_clicks = map click_through_rate performance_data;
             self = self\<lparr>scaler := Some (scaler_fit X)\<rparr>;
             X_scaled = scaler_transform (scaler_fit X) X;
             split_idx = 4 * length X_scaled div 5;
             X_train = take split_idx X_scaled;
             X_val = drop split_idx X_scaled;
             (m1, r1) = fit_and_score lstsq X_train (take split_idx y_engagement)
                          X_val (drop split_idx y_engagement) (engagement_model self);
             self = self\<lparr>engagement_model := m1\<rparr>
         in case r1 of
              Inl e \<Rightarrow> ([(''error'', Raised e)], self)
            | Inr engagement_mse \<Rightarrow>
                (let (m2, r2) = fit_and_score lstsq X_train (take split_idx y_reach)
                                  X_val (drop split_idx y_reach) (reach_model self);
                     self = self\<lparr>reach_model := m2\<rparr>
                 in case r2 of
                      Inl e \<Rightarrow>
                        ([(''engagement_mse'', Number engagement_mse), (''error'', Raised e)],
                         self)
                    | Inr reach_mse \<Rightarrow>
                        (let (m3, r3) = fit_and_score lstsq X_train (take split_idx y_clicks)
                                          X_val (drop split_idx y_clicks) (click_model self);
                             self = self\<lparr>click_model := m3\<rparr>
                         in case r3 of
                              Inl e \<Rightarrow>
                                ([(''engagement_mse'', Number engagement_mse),
                                  (''reach_mse'', Number reach_mse), (''error'', Raised e)],
                                 self)
                            | Inr clicks_mse \<Rightarrow>
                                ([(''engagement_mse'', Number engagement_mse),
                                  (''reach_mse'', Number reach_mse),
                                  (''clicks_mse'', Number clicks_mse)],
                                 self\<lparr>engagement_tracking :=
                                        \<lparr>accuracy = 1 / (1 + engagement_mse),
                                         last_trained = Some now\<rparr>,
                                      reach_tracking :=
                                        \<lparr>accuracy = 1 / (1 + reach_mse),
                                         last_trained = Some now\<rparr>,
                                      click_tracking :=
                                        \<lparr>accuracy = 1 / (1 + clicks_mse),
                                         last_trained = Some now\<rparr>\<rparr>)))))"

text \<open>
  A solver for concrete runs: all coefficients 0 and the mean of the targets as the
  intercept.  The runs below end the same way with every solver.
\<close>

definition mean_solver :: solver where
  "mean_solver X y = (replicate 8 0, np_mean y)"

text \<open>One feature record and one outcome record for concrete runs.\<close>

definition sample_features :: ContentFeatures where
  "sample_features =
     \<lparr>posting_hour = 12, posting_weekday = 1, caption_length = 120, hashtag_count = 3,
      has_image = True, sentiment_score = 0.5, readability_score = 60,
      content_type = ''image'', regional_relevance_score = 0.5\<rparr>"

definition sample_metrics :: PerformanceMetrics where
  "sample_metrics =
     \<lparr>engagement_rate = 4, reach_rate = 50, click_through_rate = 2, total_reactions = 10,
      comments = 2, shares = 1, performance_score = 0.5\<rparr>"

text \<open>
  An engine that an earlier training has left fitted, for concrete runs: its models and
  its scaler differ from what training on the sample data below gives.
\<close>

definition fitted_engine :: ContentOptimizationEngine where
  "fitted_engine =
     \<lparr>engagement_model = Some \<lparr>coef = replicate 8 1, intercept = 7\<rparr>,
      reach_model = Some \<lparr>coef = replicate 8 2, intercept = 1\<rparr>,
      click_model = Some \<lparr>coef = replicate 8 3, intercept = 5\<rparr>,
      scaler = Some \<lparr>scaler_mean = replicate 8 2, scaler_scale = replicate 8 3\<rparr>,
      engagement_tracking = \<lparr>accuracy = 0.5, last_trained = Some 1893369600000000\<rparr>,
      reach_tracking = \<lparr>accuracy = 0.25, last_trained = Some 1893369600000000\<rparr>,
      click_tracking = \<lparr>accuracy = 0.125, last_trained = Some 1893369600000000\<rparr>\<rparr>"

subsection \<open>\<open>predict_content_performance\<close>\<close>

datatype pred_value = Predicted real | Failed exn

text \<open>
  One \<open>if hasattr(model, 'coef_'): predictions[key] = max(0, model.predict(X_scaled)[0])\<close>;
  the matrix has the one row of the features.
\<close>

definition predict_metric ::
  "linear_model option \<Rightarrow> matrix \<Rightarrow> string \<Rightarrow> (string \<times> pred_value) list
     \<Rightarrow> exn + (string \<times> pred_value) list" where
  "predict_metric model X_scaled key predictions =
     (case model of
        None \<Rightarrow> Inr predictions
      | Some m \<Rightarrow>
          (case lr_predict m X_scaled of
             Inl e \<Rightarrow> Inl e
           | Inr ys \<Rightarrow> Inr (AList.update key (Predicted (max 0 (ys ! 0))) predictions)))"

fun pred_number :: "pred_value \<Rightarrow> real" where
  "pred_number (Predicted x) = x"
| "pred_number (Failed e) = 0"

text \<open>
  Line 606, \<open>self.scaler.transform(X)\<close>, stands before the \<open>try\<close>: its exception leaves
  the function.  An exception inside the \<open>try\<close> is stored under \<open>"error"\<close> in the dict
  built so far, which is returned.
\<close>

definition predict_content_performance ::
  "ContentOptimizationEngine \<Rightarrow> ContentFeatures \<Rightarrow> exn + (string \<times> pred_value) list" where
  "predict_content_performance self features =
     (let X = features_to_array [features]
      in case scaler self of
           None \<Rightarrow> Inl NotFittedError
         | Some sc \<Rightarrow>
             (let X_scaled = scaler_transform sc X;
                  predictions = []
              in case predict_metric (engagement_model self) X_scaled ''engagement_rate''
                        predictions of
                   Inl e \<Rightarrow> Inr (AList.update ''error'' (Failed e) predictions)
                 | Inr p1 \<Rightarrow>
                     (case predict_metric (reach_model self) X_scaled ''reach_rate'' p1 of
                        Inl e \<Rightarrow> Inr (AList.update ''error'' (Failed e) p1)
                      | Inr p2 \<Rightarrow>
                          (case predict_metric (click_model self) X_scaled
                                  ''click_through_rate'' p2 of
                             Inl e \<Rightarrow> Inr (AList.update ''error'' (Failed e) p2)
                           | Inr p3 \<Rightarrow>
                               (if p3 \<noteq> []
                                then
                                  (let avg_performance =
                                         sum_list (map (pred_number \<circ> snd) p3)
                                           / real (length p3)
                                   in Inr (AList.update ''overall_score''
                                             (Predicted (min 1 (avg_performance / 10))) p3))
                                else Inr p3)))))"

subsection \<open>\<open>get_content_optimization_suggestions\<close>\<close>

text \<open>
  \<open>ContentFeatures\<close> is declared with \<open>@dataclass\<close> (lines 22 to 33).  \<open>_replace\<close> is a
  method of named tuples; an instance of a dataclass has no attribute of that name, so
  evaluating \<open>features._replace\<close> raises \<open>AttributeError\<close> before any field is changed.
\<close>

definition features_replace ::
  "ContentFeatures \<Rightarrow> (ContentFeatures \<Rightarrow> ContentFeatures) \<Rightarrow> exn + ContentFeatures" where
  "features_replace features change = Inl AttributeError"

text \<open>The elements of a list display are evaluated from left to right.\<close>

fun list_display :: "(exn + 'a) list \<Rightarrow> exn + 'a list" where
  "list_display [] = Inr []"
| "list_display (Inl e # rest) = Inl e"
| "list_display (Inr x # rest) =
     (case list_display rest of Inl e \<Rightarrow> Inl e | Inr xs \<Rightarrow> Inr (x # xs))"

definition variant ::
  "ContentFeatures \<Rightarrow> (ContentFeatures \<Rightarrow> ContentFeatures) \<Rightarrow> string
     \<Rightarrow> exn + (ContentFeatures \<times> string)" where
  "variant features change description =
     (case features_replace features change of
        Inl e \<Rightarrow> Inl e
      | Inr v \<Rightarrow> Inr (v, description))"

definition test_features :: "ContentFeatures \<Rightarrow> exn + (ContentFeatures \<times> string) list" where
  "test_features features =
     list_display
       [variant features (\<lambda>f. f\<lparr>posting_hour := 9\<rparr>) ''Post at 9 AM'',
        variant features (\<lambda>f. f\<lparr>posting_hour := 12\<rparr>) ''Post at 12 PM'',
        variant features (\<lambda>f. f\<lparr>posting_hour := 18\<rparr>) ''Post at 6 PM'',
        variant features (\<lambda>f. f\<lparr>caption_length := 150\<rparr>) ''Optimize caption to 150 characters'',
        variant features (\<lambda>f. f\<lparr>caption_length := 200\<rparr>) ''Optimize caption to 200 characters'',
        variant features (\<lambda>f. f\<lparr>has_image := True\<rparr>) ''Add image to post'',
        variant features (\<lambda>f. f\<lparr>has_image := False\<rparr>) ''Remove image from post'',
        variant features (\<lambda>f. f\<lparr>hashtag_count := 3\<rparr>) ''Use 3 hashtags'',
        variant features (\<lambda>f. f\<lparr>hashtag_count := 5\<rparr>) ''Use 5 hashtags'',
        variant features (\<lambda>f. f\<lparr>sentiment_score := 0.8\<rparr>) ''Make content more positive'',
        variant features (\<lambda>f. f\<lparr>sentiment_score := - 0.2\<rparr>) ''Use more neutral tone'']"

record suggestion =
  suggestion_text :: string
  expected_improvement :: real
  confidence :: real
  predicted_score :: real

text \<open>\<open>predictions.get("overall_score", 0.5)\<close>.\<close>

definition overall_score :: "(string \<times> pred_value) list \<Rightarrow> real" where
  "overall_score predictions =
     (case map_of predictions ''overall_score'' of
        None \<Rightarrow> 0.5
      | Some v \<Rightarrow> pred_number v)"

text \<open>
  The percentage as printed by \<open>{improvement * 100:.1f}\<close> and read back by the sort key:
  one decimal place.
\<close>

definition format_1f :: "real \<Rightarrow> real" where
  "format_1f x = real_of_int (round (x * 10)) / 10"

text \<open>
  The loop of lines 668 to 680.  No call reaches it, since the list display before it
  raises; its arithmetic is written on reals.
\<close>

fun try_variants ::
  "ContentOptimizationEngine \<Rightarrow> real \<Rightarrow> real \<Rightarrow> (ContentFeatures \<times> string) list
     \<Rightarrow> exn + suggestion list" where
  "try_variants self current_score target_improvement [] = Inr []"
| "try_variants self current_score target_improvement ((test_feature, description) # rest) =
     (case predict_content_performance self test_feature of
        Inl e \<Rightarrow> Inl e
      | Inr predicted_performance \<Rightarrow>
          (let predicted = overall_score predicted_performance;
               improvement =
                 (if current_score > 0 then (predicted - current_score) / current_score
                  else 0)
           in case try_variants self current_score target_improvement rest of
                Inl e \<Rightarrow> Inl e
              | Inr suggestions \<Rightarrow>
                  Inr (if improvement \<ge> target_improvement
                       then \<lparr>suggestion_text = description,
                             expected_improvement = format_1f (improvement * 100),
                             confidence = min 1 (improvement / target_improvement),
                             predicted_score = predicted\<rparr> # suggestions
                       else suggestions)))"

definition get_content_optimization_suggestions ::
  "ContentOptimizationEngine \<Rightarrow> ContentFeatures \<Rightarrow> real \<Rightarrow> exn + suggestion list" where
  "get_content_optimization_suggestions self features target_improvement =
     (case predict_content_performance self features of
        Inl e \<Rightarrow> Inl e
      | Inr current_prediction \<Rightarrow>
          (let current_score = overall_score current_prediction
           in case test_features features of
                Inl e \<Rightarrow> Inl e
              | Inr variants \<Rightarrow>
                  (case try_variants self current_score target_improvement variants of
                     Inl e \<Rightarrow> Inl e
                   | Inr suggestions \<Rightarrow>
                       Inr (take 5 (sort_key (\<lambda>s. - expected_improvement s) suggestions)))))"

subsection \<open>\<open>analyze_content_performance\<close> and the functions it calls\<close>

text \<open>
  \<open>np.mean\<close> returns a \<open>numpy.float64\<close>.  Under numpy's default error state a true
  division of such a value by zero does not raise: it gives an infinity or a NaN, with a
  \<open>RuntimeWarning\<close>.  The value of such a division is kept in a type of its own.
\<close>

datatype np_float = Finite real | PosInf | NegInf | NaN

definition np_truediv :: "real \<Rightarrow> real \<Rightarrow> np_float" where
  "np_truediv a b =
     (if b = 0 then (if a > 0 then PosInf else if a < 0 then NegInf else NaN)
      else Finite (a / b))"

fun np_times :: "np_float \<Rightarrow> real \<Rightarrow> np_float" where
  "np_times (Finite x) c = Finite (x * c)"
| "np_times PosInf c = (if c > 0 then PosInf else if c < 0 then NegInf else NaN)"
| "np_times NegInf c = (if c > 0 then NegInf else if c < 0 then PosInf else NaN)"
| "np_times NaN c = NaN"

record bucket_stats =
  avg_engagement :: real
  post_count :: nat

text \<open>\<open>{"avg_engagement": np.mean(rates), "post_count": len(rates)}\<close> of lines 270 to 273.\<close>

definition time_stats :: "real list \<Rightarrow> bucket_stats" where
  "time_stats rates = \<lparr>avg_engagement = np_mean rates, post_count = length rates\<rparr>"

text \<open>The same with \<open>np.mean(rates) if rates else 0\<close>.\<close>

definition stats :: "real list \<Rightarrow> bucket_stats" where
  "stats rates =
     \<lparr>avg_engagement = (if rates \<noteq> [] then np_mean rates else 0), post_count = length rates\<rparr>"

text \<open>
  \<open>d[key].append(rate)\<close> on a \<open>defaultdict(list)\<close>, and the loops that fill such a dict from
  the zipped lists; a sample with no bucket is passed over.
\<close>

definition bucket_append :: "'k \<Rightarrow> real \<Rightarrow> ('k \<times> real list) list \<Rightarrow> ('k \<times> real list) list" where
  "bucket_append k rate d =
     AList.update k ((case map_of d k of None \<Rightarrow> [] | Some rates \<Rightarrow> rates) @ [rate]) d"

fun group_rates ::
  "(ContentFeatures \<Rightarrow> 'k option) \<Rightarrow> (ContentFeatures \<times> PerformanceMetrics) list
     \<Rightarrow> ('k \<times> real list) list \<Rightarrow> ('k \<times> real list) list" where
  "group_rates key [] d = d"
| "group_rates key ((feat, perf) # rest) d =
     group_rates key rest
       (case key feat of
          None \<Rightarrow> d
        | Some k \<Rightarrow> bucket_append k (engagement_rate perf) d)"

text \<open>The first bucket \<open>(name, low, high)\<close> with \<open>low <= x < high\<close>.\<close>

fun find_bucket :: "(string \<times> 'a \<times> 'a) list \<Rightarrow> ('a :: linorder) \<Rightarrow> string option" where
  "find_bucket [] x = None"
| "find_bucket ((name, low, high) # rest) x =
     (if low \<le> x \<and> x < high then Some name else find_bucket rest x)"

text \<open>\<open>xs[i]\<close> on a list: a negative index counts from the end.\<close>

definition py_index :: "'a list \<Rightarrow> int \<Rightarrow> exn + 'a" where
  "py_index xs i =
     (let n = int (length xs); j = (if i < 0 then n + i else i)
      in if 0 \<le> j \<and> j < n then Inr (xs ! nat j) else Inl IndexError)"

definition weekday_names :: "string list" where
  "weekday_names =
     [''Monday'', ''Tuesday'', ''Wednesday'', ''Thursday'', ''Friday'', ''Saturday'',
      ''Sunday'']"

text \<open>The loop of lines 286 to 290.\<close>

fun weekday_stats ::
  "(int \<times> real list) list \<Rightarrow> (string \<times> bucket_stats) list
     \<Rightarrow> exn + (string \<times> bucket_stats) list" where
  "weekday_stats [] d = Inr d"
| "weekday_stats ((weekday, rates) # rest) d =
     (case py_index weekday_names weekday of
        Inl e \<Rightarrow> Inl e
      | Inr name \<Rightarrow> weekday_stats rest (AList.update name (time_stats rates) d))"

text \<open>
  The dict that \<open>_analyze_posting_times\<close> returns; the last two fields are the entries
  \<open>optimal_hours\<close> and \<open>avoid_hours\<close> of its inner dict \<open>recommendations\<close>.
\<close>

record time_report =
  best_hours :: "(int \<times> bucket_stats) list"
  best_weekdays :: "(string \<times> bucket_stats) list"
  recommended_hours :: "int list"
  avoid_hours :: "int list"

text \<open>
  \<open>_analyze_posting_times\<close>.  \<open>sorted(..., reverse=True)\<close> is stable: equal averages keep
  their order.
\<close>

definition analyze_posting_times ::
  "ContentFeatures list \<Rightarrow> PerformanceMetrics list \<Rightarrow> exn + time_report" where
  "analyze_posting_times features performance =
     (let hour_performance =
            group_rates (\<lambda>feat. Some (posting_hour feat)) (zip features performance) [];
          weekday_performance =
            group_rates (\<lambda>feat. Some (posting_weekday feat)) (zip features performance) [];
          hours = map (\<lambda>(hour, rates). (hour, time_stats rates)) hour_performance;
          sorted_hours = sort_key (\<lambda>(hour, st). - avg_engagement st) hours
      in case weekday_stats weekday_performance [] of
           Inl e \<Rightarrow> Inl e
         | Inr weekdays \<Rightarrow>
             Inr \<lparr>best_hours = take 5 sorted_hours,
                  best_weekdays = weekdays,
                  recommended_hours = map fst (take 3 sorted_hours),
                  avoid_hours = map fst (drop (length sorted_hours - 2) sorted_hours)\<rparr>)"

record content_report =
  caption_length_analysis :: "(string \<times> bucket_stats) list"
  hashtag_analysis :: "(int \<times> bucket_stats) list"
  with_image :: bucket_stats
  without_image :: bucket_stats

definition length_buckets :: "(string \<times> int \<times> int) list" where
  "length_buckets =
     [(''short'', 0, 100), (''medium'', 100, 200), (''long'', 200, 300),
      (''very_long'', 300, 1000)]"

text \<open>\<open>_analyze_content_patterns\<close>.\<close>

definition analyze_content_patterns ::
  "ContentFeatures list \<Rightarrow> PerformanceMetrics list \<Rightarrow> content_report" where
  "analyze_content_patterns features performance =
     (let length_performance =
            group_rates (\<lambda>feat. find_bucket length_buckets (caption_length feat))
              (zip features performance) [];
          hashtag_performance =
            group_rates (\<lambda>feat. Some (min (hashtag_count feat) 10))
              (zip features performance) [];
          image_with =
            map (engagement_rate \<circ> snd)
              (filter (\<lambda>(feat, perf). has_image feat) (zip features performance));
          image_without =
            map (engagement_rate \<circ> snd)
              (filter (\<lambda>(feat, perf). \<not> has_image feat) (zip features performance))
      in \<lparr>caption_length_analysis =
             map (\<lambda>(bucket, rates). (bucket, stats rates)) length_performance,
           hashtag_analysis =
             map (\<lambda>(count, rates). (count, stats rates)) hashtag_performance,
           with_image = stats image_with,
           without_image = stats image_without\<rparr>)"

record engagement_report =
  sentiment_impact :: "(string \<times> bucket_stats) list"
  regional_relevance_impact :: "(string \<times> bucket_stats) list"

definition sentiment_buckets :: "(string \<times> real \<times> real) list" where
  "sentiment_buckets =
     [(''negative'', - 1.0, - 0.3), (''neutral'', - 0.3, 0.3), (''positive'', 0.3, 1.0)]"

definition relevance_buckets :: "(string \<times> real \<times> real) list" where
  "relevance_buckets = [(''low'', 0.0, 0.3), (''medium'', 0.3, 0.7), (''high'', 0.7, 1.0)]"

text \<open>\<open>_analyze_engagement_patterns\<close>.\<close>

definition analyze_engagement_patterns ::
  "ContentFeatures list \<Rightarrow> PerformanceMetrics list \<Rightarrow> engagement_report" where
  "analyze_engagement_patterns features performance =
     (let sentiment_performance =
            group_rates (\<lambda>feat. find_bucket sentiment_buckets (sentiment_score feat))
              (zip features performance) [];
          relevance_performance =
            group_rates (\<lambda>feat. find_bucket relevance_buckets (regional_relevance_score feat))
              (zip features performance) []
      in \<lparr>sentiment_impact =
             map (\<lambda>(bucket, rates). (bucket, stats rates)) sentiment_performance,
           regional_relevance_impact =
             map (\<lambda>(bucket, rates). (bucket, stats rates)) relevance_performance\<rparr>)"

text \<open>
  A recommendation, by its \<open>type\<close>, with the value that its text is formatted from: the
  hours, the name of the bucket, the percentage of the image impact, the hashtag count.
  The priority, the confidence and the other texts are constants of each type.
\<close>

datatype recommendation =
    PostingTime "int list"
  | ContentLength string
  | VisualContent np_float
  | Hashtags int
  | ContentTone string

record analysis_results =
  total_posts_analyzed :: nat
  time_analysis :: time_report
  content_analysis :: content_report
  engagement_insights :: engagement_report
  optimization_recommendations :: "recommendation list"

text \<open>\<open>max(items, key=f)\<close>: the first element with the greatest key.\<close>

fun max_by :: "('a \<Rightarrow> real) \<Rightarrow> 'a \<Rightarrow> 'a list \<Rightarrow> 'a" where
  "max_by f best [] = best"
| "max_by f best (x # xs) = max_by f (if f x > f best then x else best) xs"

text \<open>
  \<open>_generate_optimization_recommendations\<close>.  Line 470 divides by
  \<open>without_image_eng\<close> with no guard.
\<close>

definition generate_optimization_recommendations ::
  "ContentFeatures list \<Rightarrow> PerformanceMetrics list \<Rightarrow> analysis_results
     \<Rightarrow> recommendation list" where
  "generate_optimization_recommendations features performance analysis =
     (let recommendations = [];
          recommendations =
            (if best_hours (time_analysis analysis) \<noteq> []
             then recommendations
                    @ [PostingTime (take 3 (map fst (best_hours (time_analysis analysis))))]
             else recommendations);
          recommendations =
            (case caption_length_analysis (content_analysis analysis) of
               [] \<Rightarrow> recommendations
             | b # bs \<Rightarrow>
                 recommendations
                   @ [ContentLength (fst (max_by (\<lambda>x. avg_engagement (snd x)) b bs))]);
          with_image_eng = avg_engagement (with_image (content_analysis analysis));
          without_image_eng = avg_engagement (without_image (content_analysis analysis));
          recommendations =
            (if with_image_eng > without_image_eng * 1.2
             then recommendations
                    @ [VisualContent
                         (np_times
                            (np_truediv (with_image_eng - without_image_eng)
                               without_image_eng) 100)]
             else recommendations);
          recommendations =
            (case hashtag_analysis (content_analysis analysis) of
               [] \<Rightarrow> recommendations
             | b # bs \<Rightarrow>
                 recommendations
                   @ [Hashtags (fst (max_by (\<lambda>x. avg_engagement (snd x)) b bs))]);
          recommendations =
            (case sentiment_impact (engagement_insights analysis) of
               [] \<Rightarrow> recommendations
             | b # bs \<Rightarrow>
                 recommendations
                   @ [ContentTone (fst (max_by (\<lambda>x. avg_engagement (snd x)) b bs))])
      in recommendations)"

datatype analysis = InsufficientData string | Analysis analysis_results

text \<open>
  \<open>analyze_content_performance\<close>.  A post is given by what lines 88 and 89 make of it:
  the features and the metrics extracted, or the exception raised while extracting,
  which the loop logs and passes over.
\<close>

type_synonym post = "exn + (ContentFeatures \<times> PerformanceMetrics)"

fun extracted :: "post list \<Rightarrow> (ContentFeatures \<times> PerformanceMetrics) list" where
  "extracted [] = []"
| "extracted (Inl e # rest) = extracted rest"
| "extracted (Inr sample # rest) = sample # extracted rest"

definition analyze_content_performance :: "int \<Rightarrow> post list \<Rightarrow> exn + analysis" where
  "analyze_content_performance page_id posts_data =
     (if length posts_data < 10
      then Inr (InsufficientData
                  ''Insufficient data for analysis (minimum 10 posts required)'')
      else
        (let features_list = map fst (extracted posts_data);
             performance_list = map snd (extracted posts_data)
         in if length features_list < 5
            then Inr (InsufficientData ''Insufficient valid data for analysis'')
            else
              (case analyze_posting_times features_list performance_list of
                 Inl e \<Rightarrow> Inl e
               | Inr posting_times \<Rightarrow>
                   (let analysis_results =
                          \<lparr>total_posts_analyzed = length features_list,
                           time_analysis = posting_times,
                           content_analysis =
                             analyze_content_patterns features_list performance_list,
                           engagement_insights =
                             analyze_engagement_patterns features_list performance_list,
                           optimization_recommendations = []\<rparr>;
                        recommendations =
                          generate_optimization_recommendations features_list
                            performance_list analysis_results
                    in Inr (Analysis
                              (analysis_results
                                 \<lparr>optimization_recommendations := recommendations\<rparr>))))))"

text \<open>The recommendations of a returned report; none when the call raised.\<close>

fun recommendations_of :: "exn + analysis \<Rightarrow> recommendation list" where
  "recommendations_of (Inr (Analysis r)) = optimization_recommendations r"
| "recommendations_of other = []"

text \<open>
  Ten posts for a concrete run: five with an image and an engagement rate of 4, five
  without an image and with an engagement rate of 0.
\<close>

definition image_posts :: "post list" where
  "image_posts =
     replicate 5 (Inr (sample_features, sample_metrics))
     @ replicate 5 (Inr (sample_features\<lparr>has_image := False\<rparr>,
                         sample_metrics\<lparr>engagement_rate := 0\<rparr>))"



section \<open>Theorems\<close>

text \<open>
  C9. For every follower count, quality score and optional engagement history,
  \<open>calculate_posting_frequency\<close> equals the rule of the specification: base 6, the
  follower tier, then the quality adjustment with its clamp, then the adjustment by the
  mean of the history with its clamp, applied cumulatively in that order.
\<close>

theorem calculate_posting_frequency_refines_spec:
  "calculate_posting_frequency followers quality history =
     recommendedFrequencyHours followers quality history"
  by (simp add: calculate_posting_frequency_def recommendedFrequencyHours_def
        spec_history_step_def spec_quality_step_def spec_follower_tier_def spec_mean_def
        Let_def split: option.split)

theorem calculate_posting_frequency_refines_spec_witness:
  "calculate_posting_frequency 200000 0.9 (Some [(''mon'', 6), (''tue'', 7)]) = 3
   \<and> recommendedFrequencyHours 200000 0.9 (Some [(''mon'', 6), (''tue'', 7)]) = 3"
  using calculate_posting_frequency_refines_spec
          [of 200000 "0.9" "Some [(''mon'', 6), (''tue'', 7)]"]
  by (simp add: calculate_posting_frequency_def Let_def)


subsection \<open>\<open>get_optimal_posting_times\<close> and its callers\<close>

lemma optimal_posting_times_nonempty: "optimal_posting_times region w \<noteq> []"
  by (cases region; cases w) simp_all

lemma optimal_times_loop_raises:
  "hours \<noteq> [] \<Longrightarrow> isl (optimal_times_loop region local_date rng k hours)"
  by (cases hours) (simp_all add: pytz_zone_attr_utc_def split: sum.split)

lemma dt_replace_default_hours:
  "h \<in> set (optimal_posting_times region w) \<Longrightarrow> \<exists>d'. dt_replace d h (randint_0_59 rng k) = Inr d'"
  by (cases region; cases w) (auto simp: dt_replace_def randint_0_59_def)

lemma get_optimal_posting_times_default_raises:
  "get_optimal_posting_times tz rng k region target_date None = Inl AttributeError"
proof -
  let ?w = "dt_weekday (astimezone tz region target_date) \<ge> 5"
  obtain h hs where hs: "optimal_posting_times region ?w = h # hs"
    using optimal_posting_times_nonempty [of region ?w]
    by (cases "optimal_posting_times region ?w") auto
  then have "h \<in> set (optimal_posting_times region ?w)" by simp
  then obtain d' where
    "dt_replace (astimezone tz region target_date) h (randint_0_59 rng k) = Inr d'"
    using dt_replace_default_hours by blast
  then show ?thesis
    using hs by (simp add: get_optimal_posting_times_def pytz_zone_attr_utc_def)
qed

lemma get_optimal_posting_times_never_returns:
  "isl (get_optimal_posting_times tz rng k region target_date page_preferences)"
proof -
  define hours where "hours =
     (case page_preferences of
        None \<Rightarrow> optimal_posting_times region (dt_weekday (astimezone tz region target_date) \<ge> 5)
      | Some hs \<Rightarrow>
          if hs = []
          then optimal_posting_times region (dt_weekday (astimezone tz region target_date) \<ge> 5)
          else hs)"
  have "hours \<noteq> []"
    using optimal_posting_times_nonempty by (simp add: hours_def split: option.split)
  then obtain e where
    "optimal_times_loop region (astimezone tz region target_date) rng k hours = Inl e"
    using optimal_times_loop_raises [of hours region "astimezone tz region target_date" rng k]
    by (cases "optimal_times_loop region (astimezone tz region target_date) rng k hours") auto
  then show ?thesis
    by (simp add: get_optimal_posting_times_def Let_def hours_def)
qed

text \<open>
  C4. The claim is that \<open>get_optimal_posting_times\<close> returns, for every region, target
  date and preference list, the sorted UTC instants whose local hours are the configured
  optimal hours.  The function returns no list at all: with the default hours it raises
  \<open>AttributeError\<close> in the first round of its loop, at \<open>timezone.utc\<close>, and with any
  preference list it raises as well (\<open>ValueError\<close> from \<open>replace\<close> when the first hour is
  out of range, \<open>AttributeError\<close> otherwise).
\<close>

theorem get_optimal_posting_times_raises:
  "get_optimal_posting_times tz rng k region target_date None = Inl AttributeError
   \<and> isl (get_optimal_posting_times tz rng k region target_date page_preferences)"
proof
  show "get_optimal_posting_times tz rng k region target_date None = Inl AttributeError"
    by (rule get_optimal_posting_times_default_raises)
next
  show "isl (get_optimal_posting_times tz rng k region target_date page_preferences)"
    by (rule get_optimal_posting_times_never_returns)
qed

subsection \<open>The next posting slot\<close>

text \<open>
  The search of lines 93 to 110, over whatever lists the method it calls returns: a slot
  it accepts is after \<open>now\<close> and at least two hours from every existing post.
\<close>

lemma is_slot_available_iff:
  "is_slot_available t es g \<longleftrightarrow> (\<forall>e\<in>set es. timedelta_hours g \<le> \<bar>t - e\<bar>)"
  by (induction es) auto

lemma first_free_slot_Some:
  "first_free_slot now es ts = Some slot \<Longrightarrow>
     slot \<in> set ts \<and> now < slot \<and> (\<forall>e\<in>set es. timedelta_hours 2 \<le> \<bar>slot - e\<bar>)"
  by (induction ts) (auto simp: is_slot_available_iff split: if_splits)

lemma search_days_Some:
  "search_days get_times now es k days = Inr (Some slot, k') \<Longrightarrow>
     now < slot \<and> (\<forall>e\<in>set es. timedelta_hours 2 \<le> \<bar>slot - e\<bar>)"
proof (induction days arbitrary: k)
  case Nil
  then show ?case by simp
next
  case (Cons d ds)
  show ?case
  proof (cases "get_times (now + timedelta_days d) k")
    case (Inl e)
    with Cons.prems show ?thesis by simp
  next
    case (Inr r)
    obtain ots k1 where r: "r = (ots, k1)" by (cases r)
    show ?thesis
    proof (cases "first_free_slot now es ots")
      case None
      with Inr r Cons.prems have "search_days get_times now es k1 ds = Inr (Some slot, k')"
        by simp
      then show ?thesis by (rule Cons.IH)
    next
      case (Some s)
      with Inr r Cons.prems have "s = slot" by simp
      with Some show ?thesis using first_free_slot_Some by blast
    qed
  qed
qed

text \<open>
  C1. The claim is that every instant \<open>calculate_next_posting_slot\<close> returns lies
  strictly after \<open>now\<close> and at least two hours from every existing instant.  The
  function returns no instant: for every region, \<open>now\<close>, list of existing posts,
  frequency and preference list, the first round of the search calls
  \<open>get_optimal_posting_times\<close> at line 97, whose exception leaves the function;
  with the default hours the exception is the \<open>AttributeError\<close> of line 75.  Neither the
  acceptance test of the search, for which the three lemmas above hold, nor the
  fallback path is reached.
\<close>

theorem calculate_next_posting_slot_raises:
  "calculate_next_posting_slot tz rng k region now_utc existing_posts freq None
     = Inl AttributeError
   \<and> isl (calculate_next_posting_slot tz rng k region now_utc existing_posts freq
            page_preferences)"
proof
  have "get_optimal_posting_times tz rng k region (now_utc + timedelta_days 0) None
          = Inl AttributeError"
    by (rule get_optimal_posting_times_default_raises)
  then show "calculate_next_posting_slot tz rng k region now_utc existing_posts freq None
               = Inl AttributeError"
    by (simp add: calculate_next_posting_slot_def next_posting_slot_over_def)
next
  obtain e where
    "get_optimal_posting_times tz rng k region (now_utc + timedelta_days 0) page_preferences
       = Inl e"
    using get_optimal_posting_times_never_returns
            [of tz rng k region "now_utc + timedelta_days 0" page_preferences]
    by (cases "get_optimal_posting_times tz rng k region (now_utc + timedelta_days 0)
                 page_preferences") auto
  then show "isl (calculate_next_posting_slot tz rng k region now_utc existing_posts freq
                    page_preferences)"
    by (simp add: calculate_next_posting_slot_def next_posting_slot_over_def)
qed

subsection \<open>Validation of a schedule\<close>

lemma enter_validate_frame [simp]:
  "proposed_schedule (enter_validate self schedule) = schedule"
  "scheduler (enter_validate self schedule) = self"
  by (simp_all add: enter_validate_def)

lemma check_past_times_frame [simp]:
  "proposed_schedule (check_past_times now f) = proposed_schedule f"
  "scheduler (check_past_times now f) = scheduler f"
  by (simp_all add: check_past_times_def Let_def split: sum.split)

lemma check_daily_limits_frame [simp]:
  "proposed_schedule (check_daily_limits f) = proposed_schedule f"
  "scheduler (check_daily_limits f) = scheduler f"
  "raised (check_daily_limits f) = raised f"
  by (simp_all add: check_daily_limits_def Let_def)

lemma check_min_intervals_frame [simp]:
  "proposed_schedule (check_min_intervals f) = proposed_schedule f"
  "scheduler (check_min_intervals f) = scheduler f"
  "raised (check_min_intervals f) = raised f"
  by (simp_all add: check_min_intervals_def Let_def)

lemma check_weekly_limits_frame [simp]:
  "proposed_schedule (check_weekly_limits now f) = proposed_schedule f"
  "scheduler (check_weekly_limits now f) = scheduler f"
  "raised (check_weekly_limits now f) = raised f"
  by (simp_all add: check_weekly_limits_def Let_def)

lemma check_optimal_times_frame [simp]:
  "proposed_schedule (check_optimal_times tz p f) = proposed_schedule f"
  "scheduler (check_optimal_times tz p f) = scheduler f"
  "raised (check_optimal_times tz p f) = raised f"
  by (simp_all add: check_optimal_times_def Let_def)

lemma validate_run_frame:
  "proposed_schedule (validate_run tz now self page schedule) = schedule"
  "scheduler (validate_run tz now self page schedule) = self"
  by (simp_all add: validate_run_def Let_def)

text \<open>
  C6. For every time zone table, \<open>now\<close>, scheduler with its limits, page and proposed
  schedule: when \<open>validate_posting_schedule\<close> is left, the caller's list holds the same
  values in the same order, the scheduler is unchanged, and a second call on the objects
  the first call left, at the same \<open>now\<close>, gives the same report (or the same exception).
\<close>

theorem validate_posting_schedule_pure:
  "proposed_schedule (validate_run tz now self page schedule) = schedule
   \<and> scheduler (validate_run tz now self page schedule) = self
   \<and> validate_posting_schedule tz now
        (scheduler (validate_run tz now self page schedule)) page
        (proposed_schedule (validate_run tz now self page schedule))
       = validate_posting_schedule tz now self page schedule"
proof -
  have list_kept: "proposed_schedule (validate_run tz now self page schedule) = schedule"
    by (rule validate_run_frame)
  have self_kept: "scheduler (validate_run tz now self page schedule) = self"
    by (rule validate_run_frame)
  from list_kept self_kept show ?thesis by simp
qed

lemma past_times_of_naive:
  "list_ex is_naive schedule \<Longrightarrow> past_times_of now schedule = Inl TypeError"
proof (induction schedule)
  case Nil
  then show ?case by simp
next
  case (Cons t ts)
  then show ?case by (cases t) (auto split: sum.split)
qed

lemma past_times_of_aware:
  "\<not> list_ex is_naive schedule \<Longrightarrow>
     past_times_of now schedule = Inr (filter (\<lambda>t. utc_instant t \<le> now) schedule)"
proof (induction schedule)
  case Nil
  then show ?case by simp
next
  case (Cons t ts)
  then show ?case by (cases t) auto
qed

lemma validate_naive_raises:
  "list_ex is_naive schedule \<Longrightarrow>
     validate_posting_schedule tz now self page schedule = Inl TypeError"
  by (simp add: validate_posting_schedule_def validate_run_def check_past_times_def
        enter_validate_def past_times_of_naive Let_def)

lemma count_days_map_of:
  "map_of (count_days ts counts) d =
     (let n = (case map_of counts d of None \<Rightarrow> 0 | Some c \<Rightarrow> c) + posts_on_carried_day ts d
      in if map_of counts d = None \<and> posts_on_carried_day ts d = 0 then None else Some n)"
proof (induction ts arbitrary: counts)
  case Nil
  then show ?case by (auto simp: posts_on_carried_day_def Let_def split: option.split)
next
  case (Cons t ts)
  show ?case
    by (simp add: Cons.IH Let_def AList.update_conv' posts_on_carried_day_def split: option.split)
qed

lemma count_days_distinct:
  "distinct (map fst counts) \<Longrightarrow> distinct (map fst (count_days ts counts))"
  by (induction ts arbitrary: counts) (simp_all add: Let_def AList.distinct_update)

lemma count_days_over:
  "(\<exists>p \<in> set (count_days ts []). snd p > m) \<longleftrightarrow> (\<exists>d. posts_on_carried_day ts d > m)"
proof
  assume "\<exists>p \<in> set (count_days ts []). snd p > m"
  then obtain d c where dc: "(d, c) \<in> set (count_days ts [])" "c > m" by auto
  have "distinct (map fst (count_days ts []))" by (rule count_days_distinct) simp
  with dc have "map_of (count_days ts []) d = Some c" by simp
  then have "c = posts_on_carried_day ts d"
    by (simp add: count_days_map_of Let_def split: if_splits)
  with dc show "\<exists>d. posts_on_carried_day ts d > m" by blast
next
  assume "\<exists>d. posts_on_carried_day ts d > m"
  then obtain d where d: "posts_on_carried_day ts d > m" by blast
  then have "map_of (count_days ts []) d = Some (posts_on_carried_day ts d)"
    by (simp add: count_days_map_of Let_def)
  then have "(d, posts_on_carried_day ts d) \<in> set (count_days ts [])" by (rule map_of_SomeD)
  with d show "\<exists>p \<in> set (count_days ts []). snd p > m" by force
qed

lemma too_close_no_daily: "filter is_daily_warning (too_close g ts) = []"
  by (induction g ts rule: too_close.induct) simp_all

lemma results_check_daily:
  "results (check_daily_limits f) =
     (if (\<exists>d. posts_on_carried_day (proposed_schedule f) d > max_daily_posts (scheduler f))
      then (results f)\<lparr>warnings := warnings (results f)
             @ [DailyLimitExceeded
                  (length (filter (\<lambda>(date, count). count > max_daily_posts (scheduler f))
                     (count_days (proposed_schedule f) [])))
                  (max_daily_posts (scheduler f))]\<rparr>
      else results f)"
proof -
  have "filter (\<lambda>(date, count). count > max_daily_posts (scheduler f))
            (count_days (proposed_schedule f) []) \<noteq> []
        \<longleftrightarrow> (\<exists>d. posts_on_carried_day (proposed_schedule f) d > max_daily_posts (scheduler f))"
    using count_days_over [where m = "max_daily_posts (scheduler f)" and ts = "proposed_schedule f"]
    by (fastforce simp: filter_empty_conv)
  then show ?thesis
    by (simp add: check_daily_limits_def Let_def)
qed

lemma results_check_min_intervals:
  "results (check_min_intervals f) =
     (results f)\<lparr>warnings := warnings (results f)
        @ too_close (timedelta_hours (min_interval_hours (scheduler f)))
            (sort_key utc_instant (proposed_schedule f))\<rparr>"
  by (simp add: check_min_intervals_def Let_def)

lemma results_check_weekly:
  "results (check_weekly_limits now f) =
     (if length (filter (\<lambda>t. utc_instant t \<le> now + timedelta_weeks 1) (proposed_schedule f))
           > max_weekly_posts (scheduler f)
      then (results f)\<lparr>warnings := warnings (results f) @ [WeeklyLimit (max_weekly_posts (scheduler f))]\<rparr>
      else results f)"
  by (simp add: check_weekly_limits_def Let_def)

lemma results_check_optimal:
  "warnings (results (check_optimal_times tz p f)) = warnings (results f)"
  "errors (results (check_optimal_times tz p f)) = errors (results f)"
  "is_valid (results (check_optimal_times tz p f)) = is_valid (results f)"
  by (simp_all add: check_optimal_times_def Let_def)

lemma check_past_times_aware:
  assumes "\<not> list_ex is_naive schedule"
  shows "raised (check_past_times now (enter_validate self schedule)) = None"
    and "results (check_past_times now (enter_validate self schedule)) =
     (if filter (\<lambda>t. utc_instant t \<le> now) schedule \<noteq> []
      then \<lparr>is_valid = False, warnings = [],
            errors = [PastTimes (length (filter (\<lambda>t. utc_instant t \<le> now) schedule))],
            suggested_adjustments = []\<rparr>
      else \<lparr>is_valid = True, warnings = [], errors = [], suggested_adjustments = []\<rparr>)"
  using assms
  by (simp_all add: check_past_times_def enter_validate_def past_times_of_aware Let_def)

text \<open>
  C7 as amended. A schedule that holds a naive datetime raises \<open>TypeError\<close> at line 245.
  For every other schedule the call returns a report, and the report carries the
  daily-limit warning exactly when some calendar day, taken as \<open>date()\<close> gives it for each
  datetime in the \<open>tzinfo\<close> that datetime carries (the UTC day for a UTC datetime) and
  not converted to the region's timezone, holds more than \<open>max_daily_posts\<close> of them; the
  schedule is marked invalid, and an error is reported, exactly when some datetime is
  not after \<open>now\<close>, whatever the daily counts are.
\<close>

theorem daily_limit_warning_iff_carried_day:
  "(list_ex is_naive schedule \<longrightarrow>
      validate_posting_schedule tz now self page schedule = Inl TypeError)
   \<and> (\<not> list_ex is_naive schedule \<longrightarrow>
        (\<exists>r. validate_posting_schedule tz now self page schedule = Inr r
            \<and> (filter is_daily_warning (warnings r) \<noteq> []
                 \<longleftrightarrow> (\<exists>d. posts_on_carried_day schedule d > max_daily_posts self))
            \<and> (is_valid r \<longleftrightarrow> (\<forall>t \<in> set schedule. now < utc_instant t))
            \<and> (errors r = [] \<longleftrightarrow> (\<forall>t \<in> set schedule. now < utc_instant t))))"
proof (intro conjI impI)
  assume "list_ex is_naive schedule"
  then show "validate_posting_schedule tz now self page schedule = Inl TypeError"
    by (rule validate_naive_raises)
next
  assume aware: "\<not> list_ex is_naive schedule"
  let ?f1 = "check_past_times now (enter_validate self schedule)"
  let ?f = "check_optimal_times tz page (check_weekly_limits now
              (check_min_intervals (check_daily_limits ?f1)))"
  note p = check_past_times_aware [OF aware, of now self]
  have past: "filter (\<lambda>t. utc_instant t \<le> now) schedule = []
                \<longleftrightarrow> (\<forall>t \<in> set schedule. now < utc_instant t)"
    by (auto simp: filter_empty_conv)
  have s1: "proposed_schedule ?f1 = schedule" "scheduler ?f1 = self"
    by simp_all
  have run: "validate_posting_schedule tz now self page schedule = Inr (results ?f)"
    using p(1) by (simp add: validate_posting_schedule_def validate_run_def Let_def)
  have daily: "filter is_daily_warning (warnings (results ?f)) \<noteq> []
                 \<longleftrightarrow> (\<exists>d. posts_on_carried_day schedule d > max_daily_posts self)"
    by (simp add: results_check_optimal results_check_weekly results_check_min_intervals
          results_check_daily p(2) s1 too_close_no_daily)
  have valid: "is_valid (results ?f) \<longleftrightarrow> (\<forall>t \<in> set schedule. now < utc_instant t)"
    using past
    by (simp add: results_check_optimal results_check_weekly results_check_min_intervals
          results_check_daily p(2) s1)
  have errs: "errors (results ?f) = [] \<longleftrightarrow> (\<forall>t \<in> set schedule. now < utc_instant t)"
    using past
    by (simp add: results_check_optimal results_check_weekly results_check_min_intervals
          results_check_daily p(2) s1)
  from run daily valid errs
  show "\<exists>r. validate_posting_schedule tz now self page schedule = Inr r
            \<and> (filter is_daily_warning (warnings r) \<noteq> []
                 \<longleftrightarrow> (\<exists>d. posts_on_carried_day schedule d > max_daily_posts self))
            \<and> (is_valid r \<longleftrightarrow> (\<forall>t \<in> set schedule. now < utc_instant t))
            \<and> (errors r = [] \<longleftrightarrow> (\<forall>t \<in> set schedule. now < utc_instant t))"
    by blast
qed

theorem daily_limit_warning_iff_carried_day_witness:
  "\<not> list_ex is_naive
       [Aware 1893510000000000 (- 18000000000), Aware 1893513600000000 (- 18000000000),
        Aware 1893517200000000 (- 18000000000), Aware 1893520800000000 (- 18000000000),
        Aware 1893524400000000 (- 18000000000), Aware 1893528000000000 (- 18000000000),
        Aware 1893531600000000 (- 18000000000)]
   \<and> posts_on_carried_day
       [Aware 1893510000000000 (- 18000000000), Aware 1893513600000000 (- 18000000000),
        Aware 1893517200000000 (- 18000000000), Aware 1893520800000000 (- 18000000000),
        Aware 1893524400000000 (- 18000000000), Aware 1893528000000000 (- 18000000000),
        Aware 1893531600000000 (- 18000000000)] 21915 > max_daily_posts init_scheduler
   \<and> \<not> isl (validate_posting_schedule winter_offsets 1893456000000000 init_scheduler
        \<lparr>page_region = US\<rparr>
       [Aware 1893510000000000 (- 18000000000), Aware 1893513600000000 (- 18000000000),
        Aware 1893517200000000 (- 18000000000), Aware 1893520800000000 (- 18000000000),
        Aware 1893524400000000 (- 18000000000), Aware 1893528000000000 (- 18000000000),
        Aware 1893531600000000 (- 18000000000)])
   \<and> daily_warnings (validate_posting_schedule winter_offsets 1893456000000000 init_scheduler
        \<lparr>page_region = US\<rparr>
       [Aware 1893510000000000 (- 18000000000), Aware 1893513600000000 (- 18000000000),
        Aware 1893517200000000 (- 18000000000), Aware 1893520800000000 (- 18000000000),
        Aware 1893524400000000 (- 18000000000), Aware 1893528000000000 (- 18000000000),
        Aware 1893531600000000 (- 18000000000)]) \<noteq> []
   \<and> validate_posting_schedule winter_offsets 1893456000000000 init_scheduler
        \<lparr>page_region = US\<rparr> [Naive 1893510000000000] = Inl TypeError"
proof -
  let ?s = "[Aware 1893510000000000 (- 18000000000), Aware 1893513600000000 (- 18000000000),
        Aware 1893517200000000 (- 18000000000), Aware 1893520800000000 (- 18000000000),
        Aware 1893524400000000 (- 18000000000), Aware 1893528000000000 (- 18000000000),
        Aware 1893531600000000 (- 18000000000)]"
  have aware: "\<not> list_ex is_naive ?s" by simp
  have over: "posts_on_carried_day ?s 21915 > max_daily_posts init_scheduler"
    by code_simp
  have naive: "list_ex is_naive [Naive 1893510000000000]" by simp
  from daily_limit_warning_iff_carried_day
         [of ?s winter_offsets 1893456000000000 init_scheduler "\<lparr>page_region = US\<rparr>"] aware
  obtain r where r: "validate_posting_schedule winter_offsets 1893456000000000 init_scheduler
         \<lparr>page_region = US\<rparr> ?s = Inr r"
    "filter is_daily_warning (warnings r) \<noteq> []
       \<longleftrightarrow> (\<exists>d. posts_on_carried_day ?s d > max_daily_posts init_scheduler)"
    by blast
  from over r(2) have "filter is_daily_warning (warnings r) \<noteq> []" by blast
  with r(1) aware over
    daily_limit_warning_iff_carried_day
         [of "[Naive 1893510000000000]" winter_offsets 1893456000000000 init_scheduler
            "\<lparr>page_region = US\<rparr>"] naive
  show ?thesis by simp
qed

text \<open>
  C7 as stated fails. Seven UTC datetimes from 2030-01-01T20:00Z to 2030-01-02T02:00Z,
  one an hour, are 15:00 to 21:00 of 1 January in New York: that local day of the region
  holds seven posts, more than the limit of six, and the report has no daily-limit
  warning, since four of them show the date of 1 January and three the next.
\<close>

theorem daily_limit_local_day_counterexample:
  "posts_on_local_day winter_offsets US
      [Aware 1893528000000000 0, Aware 1893531600000000 0, Aware 1893535200000000 0,
       Aware 1893538800000000 0, Aware 1893542400000000 0, Aware 1893546000000000 0,
       Aware 1893549600000000 0] 21915 = 7
   \<and> max_daily_posts init_scheduler = 6
   \<and> \<not> isl (validate_posting_schedule winter_offsets 1893456000000000 init_scheduler
          \<lparr>page_region = US\<rparr>
          [Aware 1893528000000000 0, Aware 1893531600000000 0, Aware 1893535200000000 0,
           Aware 1893538800000000 0, Aware 1893542400000000 0, Aware 1893546000000000 0,
           Aware 1893549600000000 0])
   \<and> daily_warnings
       (validate_posting_schedule winter_offsets 1893456000000000 init_scheduler
          \<lparr>page_region = US\<rparr>
          [Aware 1893528000000000 0, Aware 1893531600000000 0, Aware 1893535200000000 0,
           Aware 1893538800000000 0, Aware 1893542400000000 0, Aware 1893546000000000 0,
           Aware 1893549600000000 0]) = []"
  by code_simp

subsection \<open>Prediction and the what-if search\<close>

text \<open>
  C3. The claim is that \<open>predict_content_performance\<close> on a predictor that was never
  trained returns an explicit untrained marker and does not raise.  On a new engine, for
  every feature record, the call raises \<open>NotFittedError\<close>: the scaler is applied at line
  606, before the \<open>try\<close> and before the \<open>hasattr\<close> guards that skip the unfitted models.
\<close>

theorem predict_untrained_raises:
  "predict_content_performance init_engine features = Inl NotFittedError"
  by (simp add: predict_content_performance_def init_engine_def)

text \<open>
  The guards do their work once the scaler is fitted: with no fitted model the call
  returns the empty dict.
\<close>

lemma predict_unfitted_scaler:
  "scaler self = None \<Longrightarrow> predict_content_performance self features = Inl NotFittedError"
  by (simp add: predict_content_performance_def)

lemma predict_no_model:
  "scaler self = Some sc \<Longrightarrow> engagement_model self = None \<Longrightarrow> reach_model self = None
   \<Longrightarrow> click_model self = None \<Longrightarrow> predict_content_performance self features = Inr []"
  by (simp add: predict_content_performance_def predict_metric_def)

lemma predict_fitted_scaler_returns:
  "scaler self = Some sc \<Longrightarrow> \<exists>p. predict_content_performance self features = Inr p"
  by (simp add: predict_content_performance_def Let_def split: sum.split)

lemma test_features_raises: "test_features features = Inl AttributeError"
  by (simp add: test_features_def variant_def features_replace_def)

text \<open>
  C5. The claim is that \<open>get_content_optimization_suggestions\<close> returns at most five
  suggestions, each meeting the target, sorted by improvement.  For every engine, feature
  record and target the call returns nothing: it raises \<open>NotFittedError\<close> from the first
  prediction when the scaler is not fitted, and otherwise \<open>AttributeError\<close> from the
  first \<open>features._replace\<close> of the list of variants.
\<close>

theorem suggestions_never_returned:
  "get_content_optimization_suggestions self features target_improvement =
     Inl (if scaler self = None then NotFittedError else AttributeError)"
proof (cases "scaler self")
  case None
  then show ?thesis
    by (simp add: get_content_optimization_suggestions_def predict_unfitted_scaler)
next
  case (Some sc)
  then obtain p where "predict_content_performance self features = Inr p"
    using predict_fitted_scaler_returns by blast
  with Some show ?thesis
    by (simp add: get_content_optimization_suggestions_def test_features_raises)
qed

subsection \<open>Training\<close>

lemma fit_and_score_eq:
  "fit_and_score lstsq Xt yt Xv yv model =
     ((case lr_fit lstsq Xt yt of Inl e \<Rightarrow> model | Inr m \<Rightarrow> Some m),
      (case lr_fit lstsq Xt yt of
         Inl e \<Rightarrow> Inl e
       | Inr m \<Rightarrow> (case lr_predict m Xv of Inl e \<Rightarrow> Inl e | Inr p \<Rightarrow> mean_squared_error yv p)))"
  by (simp add: fit_and_score_def split: sum.split)

lemma score_Inr_iff:
  "(case lr_fit lstsq Xt yt of
      Inl e \<Rightarrow> Inl e
    | Inr m \<Rightarrow> (case lr_predict m Xv of Inl e \<Rightarrow> Inl e | Inr p \<Rightarrow> mean_squared_error yv p))
     = Inr a
   \<longleftrightarrow> (\<exists>m p. lr_fit lstsq Xt yt = Inr m \<and> lr_predict m Xv = Inr p
              \<and> mean_squared_error yv p = Inr a)"
  by (auto split: sum.splits)

text \<open>
  C2 as amended. Training is not atomic.  With fewer than 20 samples the call returns an
  error and leaves the engine as it was.  Otherwise the scaler is replaced by the scaler
  fitted on the new features, whatever follows, and the three blocks run in the order
  engagement, reach, click, each only when the block before it reported its mean squared
  error.  A model whose block runs is replaced by the new least-squares fit as soon as
  \<open>fit\<close> succeeds, also when \<open>predict\<close> or \<open>mean_squared_error\<close> fails afterwards, and
  keeps its prior parameters when \<open>fit\<close> itself fails or its block does not run.  A block
  reports its mean squared error exactly when its three calls succeed.  The call returns
  an error exactly when the click block does not report; then the accuracy bookkeeping
  keeps its prior values.  When all three blocks report, each accuracy becomes
  \<open>1 / (1 + mse)\<close> of its reported error and each time stamp becomes \<open>now\<close>.
\<close>

theorem train_predictive_models_updates:
  fixes lstsq :: solver and self :: ContentOptimizationEngine
    and features_data :: "ContentFeatures list" and performance_data :: "PerformanceMetrics list"
  defines "X \<equiv> features_to_array features_data"
  defines "Xt \<equiv> take (4 * length features_data div 5) (scaler_transform (scaler_fit X) X)"
  defines "Xv \<equiv> drop (4 * length features_data div 5) (scaler_transform (scaler_fit X) X)"
  defines "train_part \<equiv> take (4 * length features_data div 5)"
  defines "val_part \<equiv> drop (4 * length features_data div 5)"
  assumes run: "train_predictive_models lstsq now self features_data performance_data
                  = (report, self')"
  shows "(length features_data < 20 \<longrightarrow>
            self' = self
            \<and> report = [(''error'', Message ''Need at least 20 data points for training'')])
       \<and> (20 \<le> length features_data \<longrightarrow>
            scaler self' = Some (scaler_fit X)
            \<and> engagement_model self' =
                (case lr_fit lstsq Xt (train_part (map engagement_rate performance_data)) of
                   Inl e \<Rightarrow> engagement_model self
                 | Inr m \<Rightarrow> Some m)
            \<and> reach_model self' =
                (if map_of report ''engagement_mse'' = None then reach_model self
                 else case lr_fit lstsq Xt (train_part (map reach_rate performance_data)) of
                        Inl e \<Rightarrow> reach_model self
                      | Inr m \<Rightarrow> Some m)
            \<and> click_model self' =
                (if map_of report ''reach_mse'' = None then click_model self
                 else case lr_fit lstsq Xt (train_part (map click_through_rate performance_data)) of
                        Inl e \<Rightarrow> click_model self
                      | Inr m \<Rightarrow> Some m)
            \<and> (\<forall>a. map_of report ''engagement_mse'' = Some (Number a) \<longleftrightarrow>
                  (\<exists>m p. lr_fit lstsq Xt (train_part (map engagement_rate performance_data)) = Inr m
                     \<and> lr_predict m Xv = Inr p
                     \<and> mean_squared_error (val_part (map engagement_rate performance_data)) p
                         = Inr a))
            \<and> (\<forall>a. map_of report ''reach_mse'' = Some (Number a) \<longleftrightarrow>
                  map_of report ''engagement_mse'' \<noteq> None
                  \<and> (\<exists>m p. lr_fit lstsq Xt (train_part (map reach_rate performance_data)) = Inr m
                     \<and> lr_predict m Xv = Inr p
                     \<and> mean_squared_error (val_part (map reach_rate performance_data)) p = Inr a))
            \<and> (\<forall>a. map_of report ''clicks_mse'' = Some (Number a) \<longleftrightarrow>
                  map_of report ''reach_mse'' \<noteq> None
                  \<and> (\<exists>m p. lr_fit lstsq Xt (train_part (map click_through_rate performance_data))
                              = Inr m
                     \<and> lr_predict m Xv = Inr p
                     \<and> mean_squared_error (val_part (map click_through_rate performance_data)) p
                         = Inr a))
            \<and> (map_of report ''error'' = None \<longleftrightarrow> map_of report ''clicks_mse'' \<noteq> None)
            \<and> (map_of report ''error'' \<noteq> None \<longrightarrow>
                  engagement_tracking self' = engagement_tracking self
                  \<and> reach_tracking self' = reach_tracking self
                  \<and> click_tracking self' = click_tracking self)
            \<and> (\<forall>a b c. map_of report ''engagement_mse'' = Some (Number a)
                       \<and> map_of report ''reach_mse'' = Some (Number b)
                       \<and> map_of report ''clicks_mse'' = Some (Number c) \<longrightarrow>
                  engagement_tracking self' = \<lparr>accuracy = 1 / (1 + a), last_trained = Some now\<rparr>
                  \<and> reach_tracking self' = \<lparr>accuracy = 1 / (1 + b), last_trained = Some now\<rparr>
                  \<and> click_tracking self' = \<lparr>accuracy = 1 / (1 + c), last_trained = Some now\<rparr>))"
proof (cases "length features_data < 20")
  case True
  with run show ?thesis by (auto simp: train_predictive_models_def)
next
  case False
  define s0 where "s0 = self\<lparr>scaler := Some (scaler_fit X)\<rparr>"
  define ye where "ye = map engagement_rate performance_data"
  define yr where "yr = map reach_rate performance_data"
  define yc where "yc = map click_through_rate performance_data"
  define m1 where "m1 = (case lr_fit lstsq Xt (train_part ye) of
                           Inl e \<Rightarrow> engagement_model self | Inr m \<Rightarrow> Some m)"
  define m2 where "m2 = (case lr_fit lstsq Xt (train_part yr) of
                           Inl e \<Rightarrow> reach_model self | Inr m \<Rightarrow> Some m)"
  define m3 where "m3 = (case lr_fit lstsq Xt (train_part yc) of
                           Inl e \<Rightarrow> click_model self | Inr m \<Rightarrow> Some m)"
  define r1 where "r1 = (case lr_fit lstsq Xt (train_part ye) of
         Inl e \<Rightarrow> Inl e
       | Inr m \<Rightarrow> (case lr_predict m Xv of Inl e \<Rightarrow> Inl e
                    | Inr p \<Rightarrow> mean_squared_error (val_part ye) p))"
  define r2 where "r2 = (case lr_fit lstsq Xt (train_part yr) of
         Inl e \<Rightarrow> Inl e
       | Inr m \<Rightarrow> (case lr_predict m Xv of Inl e \<Rightarrow> Inl e
                    | Inr p \<Rightarrow> mean_squared_error (val_part yr) p))"
  define r3 where "r3 = (case lr_fit lstsq Xt (train_part yc) of
         Inl e \<Rightarrow> Inl e
       | Inr m \<Rightarrow> (case lr_predict m Xv of Inl e \<Rightarrow> Inl e
                    | Inr p \<Rightarrow> mean_squared_error (val_part yc) p))"
  have i1: "r1 = Inr a \<longleftrightarrow> (\<exists>m p. lr_fit lstsq Xt (train_part ye) = Inr m
      \<and> lr_predict m Xv = Inr p \<and> mean_squared_error (val_part ye) p = Inr a)" for a
    unfolding r1_def by (rule score_Inr_iff)
  have i2: "r2 = Inr a \<longleftrightarrow> (\<exists>m p. lr_fit lstsq Xt (train_part yr) = Inr m
      \<and> lr_predict m Xv = Inr p \<and> mean_squared_error (val_part yr) p = Inr a)" for a
    unfolding r2_def by (rule score_Inr_iff)
  have i3: "r3 = Inr a \<longleftrightarrow> (\<exists>m p. lr_fit lstsq Xt (train_part yc) = Inr m
      \<and> lr_predict m Xv = Inr p \<and> mean_squared_error (val_part yc) p = Inr a)" for a
    unfolding r3_def by (rule score_Inr_iff)
  have f1: "fit_and_score lstsq Xt (train_part ye) Xv (val_part ye) (engagement_model self)
              = (m1, r1)"
    by (simp add: fit_and_score_eq m1_def r1_def)
  have f2: "fit_and_score lstsq Xt (train_part yr) Xv (val_part yr) (reach_model self)
              = (m2, r2)"
    by (simp add: fit_and_score_eq m2_def r2_def)
  have f3: "fit_and_score lstsq Xt (train_part yc) Xv (val_part yc) (click_model self)
              = (m3, r3)"
    by (simp add: fit_and_score_eq m3_def r3_def)
  have len: "length (scaler_transform (scaler_fit X) X) = length features_data"
    by (simp add: scaler_transform_def X_def features_to_array_def)
  have unfold: "train_predictive_models lstsq now self features_data performance_data =
     (case r1 of
        Inl e \<Rightarrow> ([(''error'', Raised e)], s0\<lparr>engagement_model := m1\<rparr>)
      | Inr mse1 \<Rightarrow>
          (case r2 of
             Inl e \<Rightarrow> ([(''engagement_mse'', Number mse1), (''error'', Raised e)],
                       s0\<lparr>engagement_model := m1, reach_model := m2\<rparr>)
           | Inr mse2 \<Rightarrow>
               (case r3 of
                  Inl e \<Rightarrow> ([(''engagement_mse'', Number mse1), (''reach_mse'', Number mse2),
                             (''error'', Raised e)],
                            s0\<lparr>engagement_model := m1, reach_model := m2, click_model := m3\<rparr>)
                | Inr mse3 \<Rightarrow>
                    ([(''engagement_mse'', Number mse1), (''reach_mse'', Number mse2),
                      (''clicks_mse'', Number mse3)],
                     s0\<lparr>engagement_model := m1, reach_model := m2, click_model := m3,
                        engagement_tracking := \<lparr>accuracy = 1 / (1 + mse1), last_trained = Some now\<rparr>,
                        reach_tracking := \<lparr>accuracy = 1 / (1 + mse2), last_trained = Some now\<rparr>,
                        click_tracking := \<lparr>accuracy = 1 / (1 + mse3), last_trained = Some now\<rparr>\<rparr>))))"
    using False f1 f2 f3
    by (simp add: train_predictive_models_def Let_def len X_def [symmetric] Xt_def [symmetric]
          Xv_def [symmetric] train_part_def [symmetric] val_part_def [symmetric]
          ye_def [symmetric] yr_def [symmetric] yc_def [symmetric] s0_def split: sum.split)
  show ?thesis
  proof (cases r1)
    case (Inl e)
    with run unfold have res: "report = [(''error'', Raised e)]"
      "self' = s0\<lparr>engagement_model := m1\<rparr>"
      by simp_all
    from Inl i1 have n1: "\<And>a. \<not> (\<exists>m p. lr_fit lstsq Xt (train_part ye) = Inr m
      \<and> lr_predict m Xv = Inr p \<and> mean_squared_error (val_part ye) p = Inr a)"
      by (metis Inl_Inr_False)
    from False res n1 show ?thesis
      by (simp add: s0_def m1_def ye_def)
  next
    case e1: (Inr mse1)
    show ?thesis
    proof (cases r2)
      case (Inl e)
      with run unfold e1 have res:
        "report = [(''engagement_mse'', Number mse1), (''error'', Raised e)]"
        "self' = s0\<lparr>engagement_model := m1, reach_model := m2\<rparr>"
        by simp_all
      from Inl i2 have n2: "\<And>a. \<not> (\<exists>m p. lr_fit lstsq Xt (train_part yr) = Inr m
        \<and> lr_predict m Xv = Inr p \<and> mean_squared_error (val_part yr) p = Inr a)"
        by (metis Inl_Inr_False)
      have p1: "\<And>a. mse1 = a \<longleftrightarrow> (\<exists>m p. lr_fit lstsq Xt (train_part ye) = Inr m
        \<and> lr_predict m Xv = Inr p \<and> mean_squared_error (val_part ye) p = Inr a)"
        using i1 e1 by auto
      from False res n2 p1 show ?thesis
        by (simp add: s0_def m1_def m2_def ye_def yr_def)
    next
      case e2: (Inr mse2)
      have p1: "\<And>a. mse1 = a \<longleftrightarrow> (\<exists>m p. lr_fit lstsq Xt (train_part ye) = Inr m
        \<and> lr_predict m Xv = Inr p \<and> mean_squared_error (val_part ye) p = Inr a)"
        using i1 e1 by auto
      have p2: "\<And>a. mse2 = a \<longleftrightarrow> (\<exists>m p. lr_fit lstsq Xt (train_part yr) = Inr m
        \<and> lr_predict m Xv = Inr p \<and> mean_squared_error (val_part yr) p = Inr a)"
        using i2 e2 by auto
      show ?thesis
      proof (cases r3)
        case (Inl e)
        with run unfold e1 e2 have res:
          "report = [(''engagement_mse'', Number mse1), (''reach_mse'', Number mse2),
                     (''error'', Raised e)]"
          "self' = s0\<lparr>engagement_model := m1, reach_model := m2, click_model := m3\<rparr>"
          by simp_all
        from Inl i3 have n3: "\<And>a. \<not> (\<exists>m p. lr_fit lstsq Xt (train_part yc) = Inr m
          \<and> lr_predict m Xv = Inr p \<and> mean_squared_error (val_part yc) p = Inr a)"
          by (metis Inl_Inr_False)
        from False res n3 p1 p2 show ?thesis
          by (simp add: s0_def m1_def m2_def m3_def ye_def yr_def yc_def)
      next
        case e3: (Inr mse3)
        have p3: "\<And>a. mse3 = a \<longleftrightarrow> (\<exists>m p. lr_fit lstsq Xt (train_part yc) = Inr m
          \<and> lr_predict m Xv = Inr p \<and> mean_squared_error (val_part yc) p = Inr a)"
          using i3 e3 by auto
        from run unfold e1 e2 e3 have res:
          "report = [(''engagement_mse'', Number mse1), (''reach_mse'', Number mse2),
                     (''clicks_mse'', Number mse3)]"
          "self' = s0\<lparr>engagement_model := m1, reach_model := m2, click_model := m3,
                        engagement_tracking := \<lparr>accuracy = 1 / (1 + mse1), last_trained = Some now\<rparr>,
                        reach_tracking := \<lparr>accuracy = 1 / (1 + mse2), last_trained = Some now\<rparr>,
                        click_tracking := \<lparr>accuracy = 1 / (1 + mse3), last_trained = Some now\<rparr>\<rparr>"
          by simp_all
        from False res p1 p2 p3 show ?thesis
          by (simp add: s0_def m1_def m2_def m3_def ye_def yr_def yc_def)
      qed
    qed
  qed
qed

lemma length_feature_vector [simp]: "length (feature_vector f) = 8"
  by (simp add: feature_vector_def)

lemma length_scaler_fit [simp]:
  "length (scaler_mean (scaler_fit X)) = 8" "length (scaler_scale (scaler_fit X)) = 8"
  by (simp_all add: scaler_fit_def)

lemma scaled_replicate:
  "\<exists>row. length row = 8
      \<and> scaler_transform (scaler_fit Y) (features_to_array (replicate n f)) = replicate n row"
proof -
  let ?row = "map (\<lambda>(x, m, s). (x - m) / s)
                (zip (feature_vector f) (zip (scaler_mean (scaler_fit Y))
                   (scaler_scale (scaler_fit Y))))"
  have "length ?row = 8" by simp
  moreover have "scaler_transform (scaler_fit Y) (features_to_array (replicate n f))
                   = replicate n ?row"
    by (simp add: scaler_transform_def features_to_array_def)
  ultimately show ?thesis by blast
qed

lemma np_mean_replicate: "0 < n \<Longrightarrow> np_mean (replicate n c) = c"
  by (simp add: np_mean_def sum_list_replicate)

lemma dot_zero: "sum_list (map2 (*) row (replicate n (0::real))) = 0"
proof (induction row arbitrary: n)
  case Nil
  then show ?case by simp
next
  case (Cons x row)
  then show ?case by (cases n) simp_all
qed

lemma lr_fit_mean_solver:
  "0 < n \<Longrightarrow> lr_fit mean_solver (replicate n row) (replicate n c)
     = Inr \<lparr>coef = replicate 8 0, intercept = c\<rparr>"
  by (simp add: lr_fit_def mean_solver_def np_mean_replicate)

lemma lr_predict_constant:
  "0 < n \<Longrightarrow> length row = 8 \<Longrightarrow>
     lr_predict \<lparr>coef = replicate 8 0, intercept = c\<rparr> (replicate n row) = Inr (replicate n c)"
  by (simp add: lr_predict_def list_ex_iff dot_zero)

lemma mean_squared_error_same:
  "0 < n \<Longrightarrow> mean_squared_error (replicate n c) (replicate n c) = Inr 0"
proof -
  assume "0 < n"
  moreover have "map2 (\<lambda>a b. (a - b)\<^sup>2) (replicate n c) (replicate n c) = replicate n 0"
    by (induction n) simp_all
  ultimately show ?thesis
    by (simp add: mean_squared_error_def np_mean_replicate)
qed

theorem train_predictive_models_updates_witness:
  "engagement_model (snd (train_predictive_models mean_solver 1893456000000000 fitted_engine
          (replicate 20 sample_features) (replicate 20 sample_metrics)))
     = Some \<lparr>coef = replicate 8 0, intercept = 4\<rparr>
   \<and> reach_model (snd (train_predictive_models mean_solver 1893456000000000 fitted_engine
          (replicate 20 sample_features) (replicate 20 sample_metrics)))
     = Some \<lparr>coef = replicate 8 0, intercept = 50\<rparr>
   \<and> click_model (snd (train_predictive_models mean_solver 1893456000000000 fitted_engine
          (replicate 20 sample_features) (replicate 20 sample_metrics)))
     = Some \<lparr>coef = replicate 8 0, intercept = 2\<rparr>
   \<and> engagement_model fitted_engine = Some \<lparr>coef = replicate 8 1, intercept = 7\<rparr>
   \<and> scaler (snd (train_predictive_models mean_solver 1893456000000000 fitted_engine
          (replicate 20 sample_features) (replicate 20 sample_metrics)))
     = Some (scaler_fit (features_to_array (replicate 20 sample_features)))
   \<and> map_of (fst (train_predictive_models mean_solver 1893456000000000 fitted_engine
          (replicate 20 sample_features) (replicate 20 sample_metrics))) ''engagement_mse''
     = Some (Number 0)
   \<and> map_of (fst (train_predictive_models mean_solver 1893456000000000 fitted_engine
          (replicate 20 sample_features) (replicate 20 sample_metrics))) ''error'' = None
   \<and> engagement_tracking (snd (train_predictive_models mean_solver 1893456000000000
          fitted_engine (replicate 20 sample_features) (replicate 20 sample_metrics)))
     = \<lparr>accuracy = 1, last_trained = Some 1893456000000000\<rparr>
   \<and> engagement_tracking fitted_engine
     = \<lparr>accuracy = 0.5, last_trained = Some 1893369600000000\<rparr>"
proof -
  let ?fs = "replicate 20 sample_features"
  let ?ps = "replicate 20 sample_metrics"
  let ?run = "train_predictive_models mean_solver 1893456000000000 fitted_engine ?fs ?ps"
  let ?X = "features_to_array ?fs"
  obtain row where row: "length row = 8"
    "scaler_transform (scaler_fit ?X) ?X = replicate 20 row"
    using scaled_replicate by blast
  have fit: "lr_fit mean_solver (take (4 * length ?fs div 5) (scaler_transform (scaler_fit ?X) ?X))
               (take (4 * length ?fs div 5) (map f ?ps))
             = Inr \<lparr>coef = replicate 8 0, intercept = f sample_metrics\<rparr>"
    for f :: "PerformanceMetrics \<Rightarrow> real"
    using lr_fit_mean_solver [of 16 row "f sample_metrics"] by (simp add: row)
  have pred: "lr_predict \<lparr>coef = replicate 8 0, intercept = c\<rparr>
               (drop (4 * length ?fs div 5) (scaler_transform (scaler_fit ?X) ?X))
             = Inr (replicate 4 c)" for c
    using lr_predict_constant [of 4 row c] by (simp add: row)
  have mse: "mean_squared_error (drop (4 * length ?fs div 5) (map f ?ps))
               (replicate 4 (f sample_metrics)) = Inr 0"
    for f :: "PerformanceMetrics \<Rightarrow> real"
    using mean_squared_error_same [of 4 "f sample_metrics"] by simp
  have run: "?run = (fst ?run, snd ?run)" by simp
  have len: "20 \<le> length ?fs" by simp
  note t = train_predictive_models_updates [OF run, THEN conjunct2, rule_format, OF len]
  have e1: "map_of (fst ?run) ''engagement_mse'' = Some (Number 0)"
    using t fit [of engagement_rate] pred mse [of engagement_rate] by blast
  then have e2: "map_of (fst ?run) ''reach_mse'' = Some (Number 0)"
    using t fit [of reach_rate] pred mse [of reach_rate] by blast
  then have e3: "map_of (fst ?run) ''clicks_mse'' = Some (Number 0)"
    using t fit [of click_through_rate] pred mse [of click_through_rate] by blast
  have sc: "scaler (snd ?run) = Some (scaler_fit ?X)"
    using t by blast
  have "engagement_model (snd ?run) =
          (case lr_fit mean_solver
                  (take (4 * length ?fs div 5) (scaler_transform (scaler_fit ?X) ?X))
                  (take (4 * length ?fs div 5) (map engagement_rate ?ps)) of
             Inl e \<Rightarrow> engagement_model fitted_engine | Inr m \<Rightarrow> Some m)"
    using t by blast
  then have m1: "engagement_model (snd ?run)
                   = Some \<lparr>coef = replicate 8 0, intercept = engagement_rate sample_metrics\<rparr>"
    by (simp only: fit sum.case)
  have "reach_model (snd ?run) =
          (if map_of (fst ?run) ''engagement_mse'' = None then reach_model fitted_engine
           else case lr_fit mean_solver
                  (take (4 * length ?fs div 5) (scaler_transform (scaler_fit ?X) ?X))
                  (take (4 * length ?fs div 5) (map reach_rate ?ps)) of
             Inl e \<Rightarrow> reach_model fitted_engine | Inr m \<Rightarrow> Some m)"
    using t by blast
  then have m2: "reach_model (snd ?run)
                   = Some \<lparr>coef = replicate 8 0, intercept = reach_rate sample_metrics\<rparr>"
    by (simp only: fit sum.case e1 option.distinct if_False)
  have "click_model (snd ?run) =
          (if map_of (fst ?run) ''reach_mse'' = None then click_model fitted_engine
           else case lr_fit mean_solver
                  (take (4 * length ?fs div 5) (scaler_transform (scaler_fit ?X) ?X))
                  (take (4 * length ?fs div 5) (map click_through_rate ?ps)) of
             Inl e \<Rightarrow> click_model fitted_engine | Inr m \<Rightarrow> Some m)"
    using t by blast
  then have m3: "click_model (snd ?run)
                   = Some \<lparr>coef = replicate 8 0, intercept = click_through_rate sample_metrics\<rparr>"
    by (simp only: fit sum.case e2 option.distinct if_False)
  have noerr: "map_of (fst ?run) ''error'' = None"
    using t e3 by blast
  have "engagement_tracking (snd ?run)
          = \<lparr>accuracy = 1 / (1 + 0), last_trained = Some 1893456000000000\<rparr>"
    using t e1 e2 e3 by blast
  then have tr: "engagement_tracking (snd ?run)
          = \<lparr>accuracy = 1, last_trained = Some 1893456000000000\<rparr>"
    by simp
  have old: "engagement_model fitted_engine = Some \<lparr>coef = replicate 8 1, intercept = 7\<rparr>"
    "engagement_tracking fitted_engine
       = \<lparr>accuracy = 0.5, last_trained = Some 1893369600000000\<rparr>"
    by (simp_all add: fitted_engine_def)
  have vals: "engagement_rate sample_metrics = 4" "reach_rate sample_metrics = 50"
    "click_through_rate sample_metrics = 2"
    by (simp_all add: sample_metrics_def)
  from sc m1 m2 m3 noerr tr old e1 show ?thesis
    unfolding vals by blast
qed

lemma length_scaler_transform [simp]: "length (scaler_transform sc X) = length X"
  by (simp add: scaler_transform_def)

lemma scaler_transform_Nil_iff [simp]: "scaler_transform sc X = [] \<longleftrightarrow> X = []"
  by (simp add: scaler_transform_def)

lemma scaler_transform_rows:
  "\<forall>row \<in> set X. length row = 8 \<Longrightarrow> row' \<in> set (scaler_transform (scaler_fit Y) X)
   \<Longrightarrow> length row' = 8"
  by (auto simp: scaler_transform_def)

lemma scaled_rows:
  "row \<in> set (scaler_transform (scaler_fit Y) (features_to_array fs)) \<Longrightarrow> length row = 8"
  by (rule scaler_transform_rows [of "features_to_array fs"]) (auto simp: features_to_array_def)

lemma fit_and_score_mismatch:
  assumes "Xt \<noteq> []" "length Xt = length yt" "Xv \<noteq> []" "\<forall>row \<in> set Xv. length row = 8"
    "yv \<noteq> []" "length yv \<noteq> length Xv"
  shows "fit_and_score mean_solver Xt yt Xv yv model
           = (Some \<lparr>coef = replicate 8 0, intercept = np_mean yt\<rparr>, Inl ValueError)"
  using assms
  by (simp add: fit_and_score_def lr_fit_def lr_predict_def mean_squared_error_def
        mean_solver_def list_ex_iff)

lemma train_engagement_block_fails:
  assumes "20 \<le> length features_data"
    and "fit_and_score lstsq
           (take (4 * length features_data div 5)
              (scaler_transform (scaler_fit (features_to_array features_data))
                 (features_to_array features_data)))
           (take (4 * length features_data div 5) (map engagement_rate performance_data))
           (drop (4 * length features_data div 5)
              (scaler_transform (scaler_fit (features_to_array features_data))
                 (features_to_array features_data)))
           (drop (4 * length features_data div 5) (map engagement_rate performance_data))
           (engagement_model self) = (m1, Inl e)"
  shows "train_predictive_models lstsq now self features_data performance_data =
           ([(''error'', Raised e)],
            self\<lparr>scaler := Some (scaler_fit (features_to_array features_data)),
                 engagement_model := m1\<rparr>)"
  using assms
  by (simp add: train_predictive_models_def Let_def features_to_array_def)

text \<open>
  C2 as stated fails. A new engine is trained on 20 feature records and 19 outcomes: the
  engagement model is fitted on the first 16 pairs, the validation set has 4 rows and 3
  targets, \<open>mean_squared_error\<close> raises and the call returns the error.  The scaler and
  the engagement model are no longer what they were before the call; the reach model
  is.
\<close>

theorem training_partial_update:
  "fst (train_predictive_models mean_solver 1893456000000000 init_engine
          (replicate 20 sample_features) (replicate 19 sample_metrics))
     = [(''error'', Raised ValueError)]
   \<and> scaler (snd (train_predictive_models mean_solver 1893456000000000 init_engine
          (replicate 20 sample_features) (replicate 19 sample_metrics)))
       \<noteq> scaler init_engine
   \<and> engagement_model (snd (train_predictive_models mean_solver 1893456000000000 init_engine
          (replicate 20 sample_features) (replicate 19 sample_metrics)))
       \<noteq> engagement_model init_engine
   \<and> reach_model (snd (train_predictive_models mean_solver 1893456000000000 init_engine
          (replicate 20 sample_features) (replicate 19 sample_metrics)))
       = reach_model init_engine"
proof -
  let ?fs = "replicate 20 sample_features"
  let ?ps = "replicate 19 sample_metrics"
  let ?Xs = "scaler_transform (scaler_fit (features_to_array ?fs)) (features_to_array ?fs)"
  have rows: "\<forall>row \<in> set (drop (4 * length ?fs div 5) ?Xs). length row = 8"
    using scaled_rows by (meson in_set_dropD)
  have "fit_and_score mean_solver (take (4 * length ?fs div 5) ?Xs)
          (take (4 * length ?fs div 5) (map engagement_rate ?ps))
          (drop (4 * length ?fs div 5) ?Xs)
          (drop (4 * length ?fs div 5) (map engagement_rate ?ps))
          (engagement_model init_engine)
        = (Some \<lparr>coef = replicate 8 0,
                  intercept = np_mean (take (4 * length ?fs div 5) (map engagement_rate ?ps))\<rparr>,
           Inl ValueError)"
    by (rule fit_and_score_mismatch) (use rows in \<open>simp_all add: features_to_array_def\<close>)
  then have "train_predictive_models mean_solver 1893456000000000 init_engine ?fs ?ps =
           ([(''error'', Raised ValueError)],
            init_engine\<lparr>scaler := Some (scaler_fit (features_to_array ?fs)),
                 engagement_model := Some \<lparr>coef = replicate 8 0,
                  intercept = np_mean (take (4 * length ?fs div 5) (map engagement_rate ?ps))\<rparr>\<rparr>)"
    by (intro train_engagement_block_fails) simp_all
  then show ?thesis by (simp add: init_engine_def)
qed

subsection \<open>Content analysis\<close>




lemma group_rates_keys:
  "fst ` set (group_rates key samples d)
     \<subseteq> fst ` set d \<union> {k. \<exists>s \<in> set samples. key (fst s) = Some k}"
proof (induction samples arbitrary: d)
  case Nil
  then show ?case by simp
next
  case (Cons s samples)
  obtain feat perf where s: "s = (feat, perf)" by (cases s)
  show ?case
  proof (cases "key feat")
    case None
    with Cons.IH [of d] s show ?thesis by auto
  next
    case (Some k)
    have "fst ` set (bucket_append k (engagement_rate perf) d) = {k} \<union> fst ` set d"
      by (simp add: bucket_append_def AList.dom_update)
    with Cons.IH [of "bucket_append k (engagement_rate perf) d"] s Some show ?thesis
      by auto
  qed
qed

lemma weekday_stats_returns:
  "\<forall>p \<in> set wp. 0 \<le> fst p \<and> fst p \<le> 6 \<Longrightarrow> \<exists>d'. weekday_stats wp d = Inr d'"
proof (induction wp arbitrary: d)
  case Nil
  then show ?case by simp
next
  case (Cons p wp)
  obtain w rates where p: "p = (w, rates)" by (cases p)
  with Cons.prems have "0 \<le> w" "w \<le> 6" by auto
  then obtain name where "py_index weekday_names w = Inr name"
    by (simp add: py_index_def weekday_names_def Let_def)
  with Cons p show ?case by simp
qed

lemma analyze_posting_times_returns:
  assumes "\<forall>f \<in> set features. 0 \<le> posting_weekday f \<and> posting_weekday f \<le> 6"
  shows "\<exists>t. analyze_posting_times features performance = Inr t"
proof -
  let ?wp = "group_rates (\<lambda>feat. Some (posting_weekday feat)) (zip features performance) []"
  have "\<forall>p \<in> set ?wp. 0 \<le> fst p \<and> fst p \<le> 6"
  proof
    fix p assume "p \<in> set ?wp"
    then have "fst p \<in> fst ` set ?wp" by simp
    then obtain s where "s \<in> set (zip features performance)" "posting_weekday (fst s) = fst p"
      using group_rates_keys [of "\<lambda>feat. Some (posting_weekday feat)" "zip features performance" "[]"]
      by auto
    moreover from this have "fst s \<in> set features"
      by (metis in_set_zipE prod.collapse)
    ultimately show "0 \<le> fst p \<and> fst p \<le> 6" using assms by auto
  qed
  then obtain d' where "weekday_stats ?wp [] = Inr d'"
    using weekday_stats_returns by blast
  then show ?thesis by (simp add: analyze_posting_times_def Let_def)
qed

lemma stats_all_zero:
  "\<forall>x \<in> set rates. x = 0 \<Longrightarrow> avg_engagement (stats rates) = 0"
proof -
  assume "\<forall>x \<in> set rates. x = 0"
  then have "sum_list rates = 0" by (induction rates) auto
  then show ?thesis by (simp add: stats_def np_mean_def)
qed

lemma without_image_zero:
  assumes "\<forall>s \<in> set (zip features performance). \<not> has_image (fst s) \<longrightarrow> engagement_rate (snd s) = 0"
  shows "avg_engagement (without_image (analyze_content_patterns features performance)) = 0"
proof -
  have "\<forall>x \<in> set (map (engagement_rate \<circ> snd)
              (filter (\<lambda>(feat, perf). \<not> has_image feat) (zip features performance))). x = 0"
    using assms by auto
  then show ?thesis
    by (simp add: analyze_content_patterns_def Let_def stats_all_zero)
qed

lemma image_recommendation_infinite:
  assumes "avg_engagement (without_image (content_analysis a)) = 0"
    and "0 < avg_engagement (with_image (content_analysis a))"
  shows "VisualContent PosInf \<in> set (generate_optimization_recommendations fs ps a)"
  using assms
  by (simp add: generate_optimization_recommendations_def Let_def np_truediv_def
        split: list.split)


lemma zip_fst_snd: "zip (map fst xs) (map snd xs) = xs"
  by (induction xs) auto

text \<open>
  C10 as amended. For every analysis input of at least 10 posts, at least 5 of them
  extracted, with weekdays from 0 to 6, in which every sample without an image has
  engagement rate 0 and the mean of the samples with an image is positive: the division
  by the mean of the samples without an image at line 470 is not guarded, it does not
  raise, its value is positive infinity, and the analysis returns a report whose
  image-impact recommendation carries that value.
\<close>

theorem image_division_by_zero_gives_infinity:
  assumes enough: "10 \<le> length posts_data" "5 \<le> length (extracted posts_data)"
    and weekdays: "\<forall>s \<in> set (extracted posts_data).
                     0 \<le> posting_weekday (fst s) \<and> posting_weekday (fst s) \<le> 6"
    and zero: "\<forall>s \<in> set (extracted posts_data).
                 \<not> has_image (fst s) \<longrightarrow> engagement_rate (snd s) = 0"
    and positive: "0 < avg_engagement (with_image
                     (analyze_content_patterns (map fst (extracted posts_data))
                        (map snd (extracted posts_data))))"
  shows "\<exists>r. analyze_content_performance page_id posts_data = Inr (Analysis r)
             \<and> VisualContent PosInf \<in> set (optimization_recommendations r)"
proof -
  let ?fs = "map fst (extracted posts_data)"
  let ?ps = "map snd (extracted posts_data)"
  have "\<forall>f \<in> set ?fs. 0 \<le> posting_weekday f \<and> posting_weekday f \<le> 6"
    using weekdays by auto
  then obtain t where t: "analyze_posting_times ?fs ?ps = Inr t"
    using analyze_posting_times_returns by blast
  define a where "a =
     \<lparr>total_posts_analyzed = length ?fs, time_analysis = t,
      content_analysis = analyze_content_patterns ?fs ?ps,
      engagement_insights = analyze_engagement_patterns ?fs ?ps,
      optimization_recommendations = []\<rparr>"
  have "avg_engagement (without_image (content_analysis a)) = 0"
    using zero by (simp add: a_def without_image_zero zip_fst_snd)
  moreover have "0 < avg_engagement (with_image (content_analysis a))"
    using positive by (simp add: a_def)
  ultimately have inf: "VisualContent PosInf
      \<in> set (generate_optimization_recommendations ?fs ?ps a)"
    by (rule image_recommendation_infinite)
  have "analyze_content_performance page_id posts_data =
          Inr (Analysis (a\<lparr>optimization_recommendations :=
                  generate_optimization_recommendations ?fs ?ps a\<rparr>))"
    using enough t by (simp add: analyze_content_performance_def Let_def a_def)
  with inf show ?thesis by simp
qed

theorem image_division_by_zero_gives_infinity_witness:
  "\<exists>r. analyze_content_performance 1 image_posts = Inr (Analysis r)
       \<and> VisualContent PosInf \<in> set (optimization_recommendations r)"
proof (rule image_division_by_zero_gives_infinity)
  show "10 \<le> length image_posts" by (simp add: image_posts_def)
  show "5 \<le> length (extracted image_posts)" by code_simp
  show "\<forall>s \<in> set (extracted image_posts).
          0 \<le> posting_weekday (fst s) \<and> posting_weekday (fst s) \<le> 6"
    by code_simp
  show "\<forall>s \<in> set (extracted image_posts).
          \<not> has_image (fst s) \<longrightarrow> engagement_rate (snd s) = 0"
    by code_simp
  show "0 < avg_engagement (with_image
            (analyze_content_patterns (map fst (extracted image_posts))
               (map snd (extracted image_posts))))"
    by code_simp
qed

text \<open>
  C10 as stated fails. On ten posts, five with an image and engagement rate 4 and five
  without an image and engagement rate 0, the analysis call does not raise: it returns
  its report, with five recommendations, the third being the image-impact
  recommendation with an infinite percentage.
\<close>

theorem image_division_does_not_raise:
  "\<not> isl (analyze_content_performance 1 image_posts)
   \<and> recommendations_of (analyze_content_performance 1 image_posts) =
       [PostingTime [12], ContentLength ''medium'', VisualContent PosInf, Hashtags 3,
        ContentTone ''positive'']"
  by code_simp

end
